theory Spec2Isabelle
  imports Main "HOL-Library.AList"
begin

section \<open>JavaScript values and errors\<close>

text \<open>
  The values the hooks and the cache handle are JSON-like: entities are objects with named
  fields, collections are arrays. Numbers are modelled as integers (timestamps, counters);
  fractional numbers and \<open>NaN\<close> are outside the model. An object is an association list,
  which keeps the insertion order of its keys as JavaScript does.
\<close>

datatype jsval =
    JUndefined
  | JNull
  | JBool bool
  | JNum int
  | JStr string
  | JArr "jsval list"
  | JObj "(string \<times> jsval) list"

text \<open>A thrown value: the fields the source inspects are \<open>name\<close>, \<open>message\<close> and \<open>code\<close>.\<close>

datatype js_error = JsError (err_name: string) (err_message: string) (err_code: string)

definition Error :: "string \<Rightarrow> js_error" where
  "Error msg = JsError ''Error'' msg ''''"

definition TypeError :: "string \<Rightarrow> js_error" where
  "TypeError msg = JsError ''TypeError'' msg ''''"

definition ReferenceError :: "string \<Rightarrow> js_error" where
  "ReferenceError msg = JsError ''ReferenceError'' msg ''''"

text \<open>\<open>if (v)\<close>, \<open>!v\<close>, \<open>v || w\<close>: JavaScript truthiness.\<close>

fun truthy :: "jsval \<Rightarrow> bool" where
  "truthy JUndefined = False"
| "truthy JNull = False"
| "truthy (JBool b) = b"
| "truthy (JNum n) = (n \<noteq> 0)"
| "truthy (JStr s) = (s \<noteq> [])"
| "truthy (JArr xs) = True"
| "truthy (JObj fs) = True"

text \<open>\<open>s.startsWith(p)\<close> on strings.\<close>

definition startsWith :: "string \<Rightarrow> string \<Rightarrow> bool" where
  "startsWith p s = (take (length p) s = p)"

text \<open>Reading an own property of an object literal; a missing key reads \<open>undefined\<close>.\<close>

definition field :: "(string \<times> jsval) list \<Rightarrow> string \<Rightarrow> jsval" where
  "field fs k = (case map_of fs k of None \<Rightarrow> JUndefined | Some v \<Rightarrow> v)"

text \<open>
  \<open>v.k\<close>: a property read throws a \<open>TypeError\<close> on \<open>null\<close> and \<open>undefined\<close>; on the other
  primitives and on arrays the entity field names used here are not defined.
\<close>

definition get_prop :: "jsval \<Rightarrow> string \<Rightarrow> js_error + jsval" where
  "get_prop v k =
     (case v of
        JUndefined \<Rightarrow> Inl (TypeError (''Cannot read properties of undefined (reading '' @ k @ '')''))
      | JNull \<Rightarrow> Inl (TypeError (''Cannot read properties of null (reading '' @ k @ '')''))
      | JObj fs \<Rightarrow> Inr (field fs k)
      | _ \<Rightarrow> Inr JUndefined)"

text \<open>\<open>v?.k\<close>: optional chaining reads \<open>undefined\<close> where \<open>v.k\<close> would throw.\<close>

definition opt_prop :: "jsval \<Rightarrow> string \<Rightarrow> jsval" where
  "opt_prop v k = (case v of JObj fs \<Rightarrow> field fs k | _ \<Rightarrow> JUndefined)"

text \<open>
  Object spread \<open>{...a, ...b}\<close>: the keys of \<open>b\<close> are written over \<open>a\<close> in order; a key already
  present keeps its position, a new key is appended.
\<close>

definition spread :: "(string \<times> jsval) list \<Rightarrow> (string \<times> jsval) list \<Rightarrow> (string \<times> jsval) list" where
  "spread a b = fold (\<lambda>(k, v). AList.update k v) b a"

section \<open>The persistent key-value medium\<close>

text \<open>
  \<open>localStorage\<close>: string keys, string values. Every call of the medium may throw (quota
  exceeded, storage disabled); whether it does may depend on everything that happened before,
  so the medium carries the journal of the calls made on it and \<open>throws\<close> reads it.
\<close>

datatype call = GetItem string | SetItem string string | RemoveItem string | Keys

record medium =
  items :: "(string \<times> string) list"
  throws :: "call list \<Rightarrow> call \<Rightarrow> js_error option"
  calls :: "call list"

definition invoke :: "call \<Rightarrow> medium \<Rightarrow> js_error option \<times> medium" where
  "invoke c m = (throws m (calls m) c, m\<lparr>calls := calls m @ [c]\<rparr>)"

definition getItem :: "string \<Rightarrow> medium \<Rightarrow> (js_error + string option) \<times> medium" where
  "getItem k m =
     (case invoke (GetItem k) m of
        (Some e, m1) \<Rightarrow> (Inl e, m1)
      | (None, m1) \<Rightarrow> (Inr (map_of (items m1) k), m1))"

definition setItem :: "string \<Rightarrow> string \<Rightarrow> medium \<Rightarrow> (js_error + unit) \<times> medium" where
  "setItem k v m =
     (case invoke (SetItem k v) m of
        (Some e, m1) \<Rightarrow> (Inl e, m1)
      | (None, m1) \<Rightarrow> (Inr (), m1\<lparr>items := AList.update k v (items m1)\<rparr>))"

definition removeItem :: "string \<Rightarrow> medium \<Rightarrow> (js_error + unit) \<times> medium" where
  "removeItem k m =
     (case invoke (RemoveItem k) m of
        (Some e, m1) \<Rightarrow> (Inl e, m1)
      | (None, m1) \<Rightarrow> (Inr (), m1\<lparr>items := AList.delete k (items m1)\<rparr>))"

text \<open>\<open>Object.keys(localStorage)\<close>: the stored keys, as a snapshot.\<close>

definition keys :: "medium \<Rightarrow> (js_error + string list) \<times> medium" where
  "keys m =
     (case invoke Keys m of
        (Some e, m1) \<Rightarrow> (Inl e, m1)
      | (None, m1) \<Rightarrow> (Inr (map fst (items m1)), m1))"

section \<open>Platform functions\<close>

text \<open>
  \<open>JSON.parse\<close> and \<open>JSON.stringify\<close> belong to the JavaScript runtime, not to this
  repository; they are parameters of the model. Each may throw. \<open>CoerceNumber\<close> is the
  runtime's conversion of a string, array or object operand of a comparison to a number
  (\<open>None\<close> is \<open>NaN\<close>).
\<close>

record platform =
  JSON_parse :: "string \<Rightarrow> js_error + jsval"
  JSON_stringify :: "jsval \<Rightarrow> js_error + string"
  CoerceNumber :: "jsval \<Rightarrow> int option"

text \<open>\<open>now > v\<close> for a number \<open>now\<close>: the right operand is converted to a number; a
  comparison with \<open>NaN\<close> is false.\<close>

definition ToNumber :: "platform \<Rightarrow> jsval \<Rightarrow> int option" where
  "ToNumber P v =
     (case v of
        JUndefined \<Rightarrow> None
      | JNull \<Rightarrow> Some 0
      | JBool b \<Rightarrow> Some (if b then 1 else 0)
      | JNum n \<Rightarrow> Some n
      | _ \<Rightarrow> CoerceNumber P v)"

definition num_gt :: "platform \<Rightarrow> int \<Rightarrow> jsval \<Rightarrow> bool" where
  "num_gt P now v = (case ToNumber P v of None \<Rightarrow> False | Some n \<Rightarrow> now > n)"

section \<open>The cache layer (lib/cache)\<close>

definition CACHE_PREFIX :: string where
  "CACHE_PREFIX = ''app_cache_''"

definition DEFAULT_TTL :: int where
  "DEFAULT_TTL = 5 * 60 * 1000"

text \<open>\<open>const { data, expiresAt } = JSON.parse(cached)\<close>: destructuring \<open>null\<close> throws.\<close>

definition parse_entry :: "platform \<Rightarrow> string \<Rightarrow> js_error + (jsval \<times> jsval)" where
  "parse_entry P s =
     (case JSON_parse P s of
        Inl e \<Rightarrow> Inl e
      | Inr v \<Rightarrow>
          (case v of
             JUndefined \<Rightarrow> Inl (TypeError ''Cannot destructure property data of undefined'')
           | JNull \<Rightarrow> Inl (TypeError ''Cannot destructure property data of null'')
           | JObj fs \<Rightarrow> Inr (field fs ''data'', field fs ''expiresAt'')
           | _ \<Rightarrow> Inr (JUndefined, JUndefined)))"

text \<open>The body of the \<open>try\<close> block of \<open>getCached\<close>; \<open>now\<close> is \<open>Date.now()\<close>.\<close>

definition getCached_try :: "platform \<Rightarrow> int \<Rightarrow> string \<Rightarrow> medium \<Rightarrow> (js_error + jsval) \<times> medium" where
  "getCached_try P now key m =
     (case getItem (CACHE_PREFIX @ key) m of
        (Inl e, m1) \<Rightarrow> (Inl e, m1)
      | (Inr cached, m1) \<Rightarrow>
          (case cached of
             None \<Rightarrow> (Inr JNull, m1)
           | Some s \<Rightarrow>
               if s = [] then (Inr JNull, m1)
               else
                 (case parse_entry P s of
                    Inl e \<Rightarrow> (Inl e, m1)
                  | Inr (data, expiresAt) \<Rightarrow>
                      if num_gt P now expiresAt then
                        (case removeItem (CACHE_PREFIX @ key) m1 of
                           (Inl e, m2) \<Rightarrow> (Inl e, m2)
                         | (Inr u, m2) \<Rightarrow> (Inr JNull, m2))
                      else (Inr data, m1))))"

text \<open>\<open>getCached\<close>: the \<open>catch\<close> clause logs and returns \<open>null\<close>.\<close>

definition getCached :: "platform \<Rightarrow> int \<Rightarrow> string \<Rightarrow> medium \<Rightarrow> (js_error + jsval) \<times> medium" where
  "getCached P now key m =
     (case getCached_try P now key m of
        (Inl err, m1) \<Rightarrow> (Inr JNull, m1)
      | (Inr v, m1) \<Rightarrow> (Inr v, m1))"

definition setCached_try ::
  "platform \<Rightarrow> int \<Rightarrow> string \<Rightarrow> jsval \<Rightarrow> int \<Rightarrow> medium \<Rightarrow> (js_error + unit) \<times> medium" where
  "setCached_try P now key data ttl m =
     (let expiresAt = now + ttl in
      case JSON_stringify P (JObj [(''data'', data), (''expiresAt'', JNum expiresAt)]) of
        Inl e \<Rightarrow> (Inl e, m)
      | Inr s \<Rightarrow> setItem (CACHE_PREFIX @ key) s m)"

definition setCached ::
  "platform \<Rightarrow> int \<Rightarrow> string \<Rightarrow> jsval \<Rightarrow> int \<Rightarrow> medium \<Rightarrow> (js_error + unit) \<times> medium" where
  "setCached P now key data ttl m =
     (case setCached_try P now key data ttl m of
        (Inl err, m1) \<Rightarrow> (Inr (), m1)
      | (Inr u, m1) \<Rightarrow> (Inr (), m1))"

definition clearCache :: "string \<Rightarrow> medium \<Rightarrow> (js_error + unit) \<times> medium" where
  "clearCache key m =
     (case removeItem (CACHE_PREFIX @ key) m of
        (Inl err, m1) \<Rightarrow> (Inr (), m1)
      | (Inr u, m1) \<Rightarrow> (Inr (), m1))"

text \<open>The \<open>forEach\<close> of \<open>clearAllCaches\<close> over the snapshot of keys; a throw ends it.\<close>

fun removeEach :: "string list \<Rightarrow> medium \<Rightarrow> (js_error + unit) \<times> medium" where
  "removeEach [] m = (Inr (), m)"
| "removeEach (key # ks) m =
     (if startsWith CACHE_PREFIX key then
        (case removeItem key m of
           (Inl e, m1) \<Rightarrow> (Inl e, m1)
         | (Inr u, m1) \<Rightarrow> removeEach ks m1)
      else removeEach ks m)"

definition clearAllCaches_try :: "medium \<Rightarrow> (js_error + unit) \<times> medium" where
  "clearAllCaches_try m =
     (case keys m of
        (Inl e, m1) \<Rightarrow> (Inl e, m1)
      | (Inr ks, m1) \<Rightarrow> removeEach ks m1)"

definition clearAllCaches :: "medium \<Rightarrow> (js_error + unit) \<times> medium" where
  "clearAllCaches m =
     (case clearAllCaches_try m of
        (Inl err, m1) \<Rightarrow> (Inr (), m1)
      | (Inr u, m1) \<Rightarrow> (Inr (), m1))"

text \<open>
  \<open>fetchWithCache\<close>. The outcome of awaiting \<open>fetchFn()\<close> is an input: \<open>Inl\<close> a rejection,
  \<open>Inr\<close> the fetched data. With a truthy cached value the function returns at once and the
  fetch settles in the background, at time \<open>later\<close>; the medium returned is the one after
  the background handlers have run.
\<close>

definition fetchWithCache ::
  "platform \<Rightarrow> int \<Rightarrow> int \<Rightarrow> string \<Rightarrow> (js_error + jsval) \<Rightarrow> int \<Rightarrow> medium
     \<Rightarrow> (js_error + jsval) \<times> medium" where
  "fetchWithCache P now later cacheKey fetched ttl m =
     (case getCached P now cacheKey m of
        (Inl e, m1) \<Rightarrow> (Inl e, m1)
      | (Inr cached, m1) \<Rightarrow>
          if truthy cached then
            (case fetched of
               Inr freshData \<Rightarrow> (Inr cached, snd (setCached P later cacheKey freshData ttl m1))
             | Inl err \<Rightarrow> (Inr cached, m1))
          else
            (case fetched of
               Inl err \<Rightarrow> (Inl err, m1)
             | Inr data \<Rightarrow>
                 (case setCached P later cacheKey data ttl m1 of
                    (Inl e, m2) \<Rightarrow> (Inl e, m2)
                  | (Inr u, m2) \<Rightarrow> (Inr data, m2))))"

section \<open>The client hooks (hooks/useClients)\<close>

text \<open>
  A hook operation is an asynchronous function over React state. The model takes the state
  the setters act on when the call begins and the way the awaited remote call settles
  (\<open>Inl\<close> a rejection, \<open>Inr\<close> the resolved value), and returns what can be observed:
  the state while the remote call is pending, the state after the last setter has been
  applied, what the promise of the operation settles to, and the notifications raised.
  No other mutation of the same state is interleaved with the call.
\<close>

datatype toast = ToastSuccess string | ToastError string

record 's outcome =
  during :: "js_error + 's"
  final :: "js_error + 's"
  returned :: "js_error + (jsval \<times> js_error option)"
  toasts :: "toast list"

text \<open>The decimal digits of a number, as a template literal prints \<open>Date.now()\<close>.\<close>

fun digits :: "nat \<Rightarrow> string" where
  "digits n =
     (if n < 10 then [''0123456789'' ! n]
      else digits (n div 10) @ [''0123456789'' ! (n mod 10)])"

declare digits.simps [simp del]

definition decimal :: "int \<Rightarrow> string" where
  "decimal i = (if i < 0 then CHR ''-'' # digits (nat (- i)) else digits (nat i))"

text \<open>\<open>xs.map(f)\<close> and \<open>xs.filter(p)\<close> with callbacks that may throw: the first throw ends the
  traversal.\<close>

fun array_map :: "('a \<Rightarrow> js_error + 'b) \<Rightarrow> 'a list \<Rightarrow> js_error + 'b list" where
  "array_map f [] = Inr []"
| "array_map f (x # xs) =
     (case f x of
        Inl e \<Rightarrow> Inl e
      | Inr y \<Rightarrow> (case array_map f xs of Inl e \<Rightarrow> Inl e | Inr ys \<Rightarrow> Inr (y # ys)))"

fun array_filter :: "('a \<Rightarrow> js_error + bool) \<Rightarrow> 'a list \<Rightarrow> js_error + 'a list" where
  "array_filter p [] = Inr []"
| "array_filter p (x # xs) =
     (case p x of
        Inl e \<Rightarrow> Inl e
      | Inr b \<Rightarrow>
          (case array_filter p xs of
             Inl e \<Rightarrow> Inl e
           | Inr ys \<Rightarrow> Inr (if b then x # ys else ys)))"

text \<open>The own fields that an object spread \<open>...v\<close> copies; \<open>null\<close> and \<open>undefined\<close> and the
  other primitives contribute none.\<close>

definition own_fields :: "jsval \<Rightarrow> (string \<times> jsval) list" where
  "own_fields v = (case v of JObj fs \<Rightarrow> fs | _ \<Rightarrow> [])"

text \<open>
  \<open>{ id: `temp-${Date.now()}`, ...clientData, created_at: new Date().toISOString() }\<close>;
  \<open>stamp\<close> is the timestamp string.
\<close>

definition optimisticClient :: "int \<Rightarrow> string \<Rightarrow> (string \<times> jsval) list \<Rightarrow> jsval" where
  "optimisticClient now stamp clientData =
     JObj (spread (spread [(''id'', JStr (''temp-'' @ decimal now))] clientData)
             [(''created_at'', JStr stamp)])"

text \<open>\<open>c => (c.id === optimisticClient.id ? newClient : c)\<close>. Identifiers are primitives, on
  which \<open>===\<close> is equality of values.\<close>

definition replace_optimistic :: "jsval \<Rightarrow> jsval \<Rightarrow> jsval \<Rightarrow> js_error + jsval" where
  "replace_optimistic optimistic newClient c =
     (case get_prop c ''id'' of
        Inl e \<Rightarrow> Inl e
      | Inr i \<Rightarrow> Inr (if i = opt_prop optimistic ''id'' then newClient else c))"

text \<open>\<open>c => !c.id.startsWith('temp-')\<close>: only a string has the method.\<close>

definition not_temp :: "jsval \<Rightarrow> js_error + bool" where
  "not_temp c =
     (case get_prop c ''id'' of
        Inl e \<Rightarrow> Inl e
      | Inr i \<Rightarrow>
          (case i of
             JStr s \<Rightarrow> Inr (\<not> startsWith ''temp-'' s)
           | JUndefined \<Rightarrow> Inl (TypeError ''Cannot read properties of undefined (reading startsWith)'')
           | JNull \<Rightarrow> Inl (TypeError ''Cannot read properties of null (reading startsWith)'')
           | _ \<Rightarrow> Inl (TypeError ''c.id.startsWith is not a function'')))"

text \<open>\<open>useClients().create\<close>. \<open>created\<close> is how \<open>createSupabaseClient(clientData)\<close> settles.\<close>

definition useClients_create ::
  "jsval list \<Rightarrow> (string \<times> jsval) list \<Rightarrow> int \<Rightarrow> string \<Rightarrow> (js_error + jsval) \<Rightarrow> medium
     \<Rightarrow> jsval list outcome \<times> medium" where
  "useClients_create clients clientData now stamp created m =
     (let optimistic = optimisticClient now stamp clientData;
          applied = clients @ [optimistic]
      in case created of
           Inr newClient \<Rightarrow>
             (\<lparr>during = Inr applied,
               final = array_map (replace_optimistic optimistic newClient) applied,
               returned = Inr (newClient, None),
               toasts = [ToastSuccess ''Client created successfully'']\<rparr>,
              snd (clearCache ''clients'' m))
         | Inl err \<Rightarrow>
             (\<lparr>during = Inr applied,
               final = array_filter not_temp applied,
               returned = Inr (JNull, Some err),
               toasts = [ToastError ''Failed to create client'']\<rparr>,
              m))"

text \<open>
  Identifier resolution. A \<open>const\<close> declared in a block is visible in that block only; an
  identifier that no enclosing scope declares throws a \<open>ReferenceError\<close> when it is evaluated.
\<close>

definition resolve :: "(string \<times> jsval) list \<Rightarrow> string \<Rightarrow> js_error + jsval" where
  "resolve scope x =
     (case map_of scope x of
        None \<Rightarrow> Inl (ReferenceError (x @ '' is not defined''))
      | Some v \<Rightarrow> Inr v)"

text \<open>\<open>c => (c.id === clientId ? { ...c, ...updates } : c)\<close>.\<close>

definition merge_into :: "string \<Rightarrow> (string \<times> jsval) list \<Rightarrow> jsval \<Rightarrow> js_error + jsval" where
  "merge_into clientId updates c =
     (case get_prop c ''id'' of
        Inl e \<Rightarrow> Inl e
      | Inr i \<Rightarrow> Inr (if i = JStr clientId then JObj (spread (own_fields c) updates) else c))"

text \<open>
  \<open>useClients().update\<close>. \<open>clients\<close> is the value of the state variable that the closure of
  \<open>update\<close> captured, \<open>current\<close> the state the setters act on, \<open>updated\<close> how
  \<open>updateClient(clientId, updates)\<close> settles. The function body declares \<open>clientId\<close> and
  \<open>updates\<close> and sees \<open>clients\<close>; the \<open>try\<close> block declares \<open>prevClients\<close> and
  \<open>updatedClient\<close>; the \<open>catch\<close> clause declares \<open>err\<close>. The rollback
  \<open>setClients(prevClients)\<close> stands in the \<open>catch\<close> clause.
\<close>

definition useClients_update ::
  "jsval list \<Rightarrow> jsval list \<Rightarrow> string \<Rightarrow> (string \<times> jsval) list
     \<Rightarrow> (js_error + (string \<times> jsval) list) \<Rightarrow> medium \<Rightarrow> jsval list outcome \<times> medium" where
  "useClients_update clients current clientId updates updated m =
     (let function_scope =
            [(''clientId'', JStr clientId), (''updates'', JObj updates), (''clients'', JArr clients)];
          try_scope = (''prevClients'', JArr clients) # function_scope;
          applied = array_map (merge_into clientId updates) current
      in case updated of
           Inr updatedClient \<Rightarrow>
             (\<lparr>during = applied,
               final =
                 (case applied of
                    Inl e \<Rightarrow> Inl e
                  | Inr cs \<Rightarrow> array_map (merge_into clientId updatedClient) cs),
               returned = Inr (JObj updatedClient, None),
               toasts = [ToastSuccess ''Client updated successfully'']\<rparr>,
              snd (clearCache ''clients'' m))
         | Inl err \<Rightarrow>
             (let catch_scope = (''err'', JStr (err_message err)) # function_scope
              in case resolve catch_scope ''prevClients'' of
                   Inl thrown \<Rightarrow>
                     (\<lparr>during = applied,
                       final = applied,
                       returned = Inl thrown,
                       toasts = []\<rparr>,
                      m)
                 | Inr prevClients \<Rightarrow>
                     (\<lparr>during = applied,
                       final = (case prevClients of JArr cs \<Rightarrow> Inr cs | _ \<Rightarrow> applied),
                       returned = Inr (JNull, Some err),
                       toasts = [ToastError ''Failed to update client'']\<rparr>,
                      m)))"

text \<open>\<open>useClient(clientId).update\<close>. \<open>updated\<close> is how \<open>updateClient(clientId, updates)\<close>
  settles; the only setter is \<open>setClient(prev => ({ ...prev, ...updatedClient }))\<close> after it.\<close>

definition useClient_update ::
  "jsval \<Rightarrow> (string \<times> jsval) list \<Rightarrow> (js_error + (string \<times> jsval) list) \<Rightarrow> jsval outcome" where
  "useClient_update client updates updated =
     (case updated of
        Inr updatedClient \<Rightarrow>
          \<lparr>during = Inr client,
            final = Inr (JObj (spread (own_fields client) updatedClient)),
            returned = Inr (JObj updatedClient, None),
            toasts = [ToastSuccess ''Client updated successfully'']\<rparr>
      | Inl err \<Rightarrow>
          \<lparr>during = Inr client,
            final = Inr client,
            returned = Inr (JNull, Some err),
            toasts = [ToastError ''Failed to update client'']\<rparr>)"

section \<open>The authentication context (AuthProvider)\<close>

record auth_state =
  user :: jsval
  profile :: jsval
  organization :: jsval
  loading :: bool
  error :: jsval

text \<open>The initial values of the five \<open>useState\<close> hooks.\<close>

definition initial_auth :: auth_state where
  "initial_auth =
     \<lparr>user = JNull, profile = JNull, organization = JNull, loading = True, error = JNull\<rparr>"

text \<open>\<open>v || null\<close>.\<close>

definition or_null :: "jsval \<Rightarrow> jsval" where
  "or_null v = (if truthy v then v else JNull)"

text \<open>\<open>setUser(u); setProfile(p); setOrganization(p?.organization || null)\<close>.\<close>

definition show_profile :: "jsval \<Rightarrow> jsval \<Rightarrow> auth_state \<Rightarrow> auth_state" where
  "show_profile u p a =
     a\<lparr>user := u, profile := p, organization := or_null (opt_prop p ''organization'')\<rparr>"

text \<open>\<open>setUser(null); setProfile(null); setOrganization(null)\<close>.\<close>

definition clear_identity :: "auth_state \<Rightarrow> auth_state" where
  "clear_identity a = a\<lparr>user := JNull, profile := JNull, organization := JNull\<rparr>"

text \<open>
  \<open>signOut\<close>. \<open>remote\<close> is how \<open>supabase.auth.signOut()\<close> settles: \<open>Inl\<close> a rejection,
  \<open>Inr\<close> the \<open>error\<close> field of its result. The result is the \<open>error\<close> field of the
  object returned.
\<close>

definition signOut ::
  "(js_error + js_error option) \<Rightarrow> auth_state \<Rightarrow> medium \<Rightarrow> js_error option \<times> auth_state \<times> medium" where
  "signOut remote a m =
     (let a1 = a\<lparr>error := JNull\<rparr> in
      case removeItem ''dev:mockAuth'' m of
        (Inl err, m1) \<Rightarrow> (Some err, a1\<lparr>error := JStr (err_message err)\<rparr>, m1)
      | (Inr u, m1) \<Rightarrow>
          (case clearCache ''userProfile'' m1 of
             (Inl err, m2) \<Rightarrow> (Some err, a1\<lparr>error := JStr (err_message err)\<rparr>, m2)
           | (Inr u, m2) \<Rightarrow>
               (case remote of
                  Inl err \<Rightarrow> (Some err, a1\<lparr>error := JStr (err_message err)\<rparr>, m2)
                | Inr (Some err) \<Rightarrow> (Some err, a1\<lparr>error := JStr (err_message err)\<rparr>, m2)
                | Inr None \<Rightarrow> (None, clear_identity a1, m2))))"

text \<open>
  \<open>ensureOrganization\<close>. The three awaited database calls settle as the environment says:
  \<open>Inl\<close> a rejection, \<open>Inr\<close> the \<open>error\<close> (and \<open>data\<close>) of the result. A profile is a row
  object or \<open>null\<close>. The payloads sent (organization name and slug) do not reach the result
  and are left out.
\<close>

record ensure_env =
  fix_role :: "js_error + js_error option"
  insert_org :: "js_error + (jsval \<times> js_error option)"
  link_user :: "js_error + js_error option"

definition ensureOrganization ::
  "ensure_env \<Rightarrow> (string \<times> jsval) list option \<Rightarrow> js_error + (string \<times> jsval) list option" where
  "ensureOrganization D currentProfile =
     (case currentProfile of
        None \<Rightarrow> Inr None
      | Some p \<Rightarrow>
          if truthy (field p ''organization'') then
            (if field p ''role'' \<noteq> JStr ''owner'' then
               (case fix_role D of
                  Inl thrown \<Rightarrow> Inl thrown
                | Inr updateError \<Rightarrow>
                    (case updateError of
                       None \<Rightarrow> Inr (Some (AList.update ''role'' (JStr ''owner'') p))
                     | Some e \<Rightarrow> Inr (Some p)))
             else Inr (Some p))
          else
            (case insert_org D of
               Inl err \<Rightarrow> Inr (Some p)
             | Inr (org, orgError) \<Rightarrow>
                 (case orgError of
                    Some err \<Rightarrow> Inr (Some p)
                  | None \<Rightarrow>
                      (case get_prop org ''id'' of
                         Inl err \<Rightarrow> Inr (Some p)
                       | Inr org_id \<Rightarrow>
                           (case link_user D of
                              Inl err \<Rightarrow> Inr (Some p)
                            | Inr (Some err) \<Rightarrow> Inr (Some p)
                            | Inr None \<Rightarrow>
                                Inr (Some (AList.update ''role'' (JStr ''owner'')
                                       (AList.update ''organization'' org
                                          (AList.update ''organization_id'' org_id p)))))))))"

text \<open>
  What \<open>initializeAuth\<close> meets outside the component: the build mode, how the awaited calls
  settle, whether a timer wins its race, whether the component is still mounted at each
  test of \<open>mounted\<close>, and \<open>Date.now()\<close> at each use of the cache.
\<close>

record auth_env =
  production :: bool
  has_window :: bool
  first_session :: "js_error + (jsval \<times> js_error option)"
  second_session :: "js_error + (jsval \<times> js_error option)"
  session_timeout :: bool
  mounted_after_session :: bool
  first_profile :: "js_error + (string \<times> jsval) list option"
  ensure_first :: ensure_env
  insert_user :: "js_error + js_error option"
  second_profile :: "js_error + (string \<times> jsval) list option"
  ensure_second :: ensure_env
  mounted_after_profile :: bool
  mounted_on_failure :: bool
  t_start :: int
  t_cached :: int
  t_store :: int
  t_fallback :: int

text \<open>\<open>getSessionWithRetry\<close>: one retry, after an \<open>AbortError\<close> on the first attempt only.\<close>

definition getSessionWithRetry :: "auth_env \<Rightarrow> js_error + (jsval \<times> js_error option)" where
  "getSessionWithRetry E =
     (case first_session E of
        Inr r \<Rightarrow> Inr r
      | Inl err \<Rightarrow>
          if err_name err = ''AbortError'' then
            (case second_session E of Inr r \<Rightarrow> Inr r | Inl err2 \<Rightarrow> Inl err2)
          else Inl err)"

text \<open>The race against the two-second timer, and the \<open>try\<close>/\<open>catch\<close> around it: the value is
  the session the function goes on with, or the error thrown on to the outer handler.\<close>

definition check_session :: "auth_env \<Rightarrow> js_error + jsval" where
  "check_session E =
     (case (if session_timeout E then Inl (Error ''auth-init-timeout'') else getSessionWithRetry E) of
        Inr (s, se) \<Rightarrow>
          (case se of
             None \<Rightarrow> Inr s
           | Some sessionError \<Rightarrow>
               if err_message sessionError = ''auth-init-timeout'' then Inr s else Inl sessionError)
      | Inl err \<Rightarrow> if err_message err = ''auth-init-timeout'' then Inr JNull else Inl err)"

text \<open>\<open>s.includes(p)\<close> on strings.\<close>

fun includes_str :: "string \<Rightarrow> string \<Rightarrow> bool" where
  "includes_str [] p = (p = [])"
| "includes_str (c # cs) p = (startsWith p (c # cs) \<or> includes_str cs p)"

text \<open>The development shortcut: the test of \<open>dev:mockAuth\<close> and the state it sets.\<close>

definition dev_mock :: "auth_env \<Rightarrow> medium \<Rightarrow> (js_error + bool) \<times> medium" where
  "dev_mock E m =
     (if \<not> production E \<and> has_window E then
        (case getItem ''dev:mockAuth'' m of
           (Inl err, m1) \<Rightarrow> (Inl err, m1)
         | (Inr v, m1) \<Rightarrow> (Inr (v = Some ''true''), m1))
      else (Inr False, m))"

definition mockUser :: jsval where
  "mockUser = JObj [(''id'', JStr ''dev-user''), (''email'', JStr ''dev@local'')]"

definition mockProfile :: jsval where
  "mockProfile =
     JObj [(''id'', JStr ''dev-user''), (''full_name'', JStr ''Developer''), (''role'', JStr ''owner''),
           (''organization'',
              JObj [(''id'', JStr ''org-dev''), (''name'', JStr ''Dev Org''), (''slug'', JStr ''dev-org'')])]"

text \<open>\<open>if (mounted && profileData) { setCached(...); setUser(...); setProfile(...);
  setOrganization(...) }\<close>.\<close>

definition adopt_profile ::
  "platform \<Rightarrow> auth_env \<Rightarrow> jsval \<Rightarrow> (string \<times> jsval) list option \<Rightarrow> auth_state \<Rightarrow> medium
     \<Rightarrow> auth_state \<times> medium" where
  "adopt_profile P E sessionUser profileData a m =
     (if mounted_after_profile E then
        (case profileData of
           None \<Rightarrow> (a, m)
         | Some p \<Rightarrow>
             (show_profile sessionUser (JObj p) a,
              snd (setCached P (t_store E) ''userProfile'' (JObj p) (10 * 60 * 1000) m)))
      else (a, m))"

text \<open>The \<open>try\<close> block that fetches the profile of a signed-in user.\<close>

definition load_profile ::
  "platform \<Rightarrow> auth_env \<Rightarrow> jsval \<Rightarrow> auth_state \<Rightarrow> medium
     \<Rightarrow> (js_error + unit) \<times> auth_state \<times> medium" where
  "load_profile P E sessionUser a m =
     (case getCached P (t_cached E) ''userProfile'' m of
        (Inl err, m1) \<Rightarrow> (Inl err, a, m1)
      | (Inr cached, m1) \<Rightarrow>
          (let a1 = (if truthy cached then show_profile sessionUser cached a else a) in
           case first_profile E of
             Inl err \<Rightarrow> (Inl err, a1, m1)
           | Inr fetched \<Rightarrow>
               (case ensureOrganization (ensure_first E) fetched of
                  Inl err \<Rightarrow> (Inl err, a1, m1)
                | Inr profileData \<Rightarrow>
                    (case adopt_profile P E sessionUser profileData a1 m1 of
                       (a2, m2) \<Rightarrow> (Inr (), a2, m2)))))"

text \<open>The profile built from the inserted row when the second fetch fails.\<close>

definition inserted_profile :: "jsval \<Rightarrow> (string \<times> jsval) list" where
  "inserted_profile sessionUser =
     [(''id'', opt_prop sessionUser ''id''),
      (''email'', opt_prop sessionUser ''email''),
      (''full_name'',
         (let n = opt_prop (opt_prop sessionUser ''user_metadata'') ''full_name''
          in if truthy n then n else JStr [])),
      (''role'', JStr ''owner''),
      (''organization_id'', JNull),
      (''organization'', JNull)]"

text \<open>The \<open>catch (profileErr)\<close> clause.\<close>

definition recover_profile ::
  "platform \<Rightarrow> auth_env \<Rightarrow> jsval \<Rightarrow> js_error \<Rightarrow> auth_state \<Rightarrow> medium
     \<Rightarrow> (js_error + unit) \<times> auth_state \<times> medium" where
  "recover_profile P E sessionUser profileErr a m =
     (if err_code profileErr = ''PGRST116'' \<or> includes_str (err_message profileErr) ''No rows'' then
        (case insert_user E of
           Inl err \<Rightarrow> (Inl err, a, m)
         | Inr (Some insertError) \<Rightarrow> (Inl insertError, a, m)
         | Inr None \<Rightarrow>
             (let fetched =
                    (case second_profile E of
                       Inr p \<Rightarrow> p
                     | Inl fetchErr \<Rightarrow> Some (inserted_profile sessionUser))
              in case ensureOrganization (ensure_second E) fetched of
                   Inl err \<Rightarrow> (Inl err, a, m)
                 | Inr profileData \<Rightarrow>
                     (case adopt_profile P E sessionUser profileData a m of
                        (a2, m2) \<Rightarrow> (Inr (), a2, m2))))
      else if mounted_after_profile E then
        (case getCached P (t_fallback E) ''userProfile'' m of
           (Inl err, m1) \<Rightarrow> (Inl err, a, m1)
         | (Inr cached, m1) \<Rightarrow>
             if \<not> truthy cached then (Inr (), a\<lparr>user := sessionUser\<rparr>, m1)
             else (Inr (), show_profile sessionUser cached a, m1))
      else (Inr (), a, m))"

text \<open>The inner \<open>try\<close>/\<open>catch (profileErr)\<close> statement for a signed-in user.\<close>

definition profile_stage ::
  "platform \<Rightarrow> auth_env \<Rightarrow> jsval \<Rightarrow> auth_state \<Rightarrow> medium
     \<Rightarrow> (js_error + unit) \<times> auth_state \<times> medium" where
  "profile_stage P E sessionUser a m =
     (case load_profile P E sessionUser a m of
        (Inr u, a1, m1) \<Rightarrow> (Inr (), a1, m1)
      | (Inl profileErr, a1, m1) \<Rightarrow> recover_profile P E sessionUser profileErr a1 m1)"

text \<open>The outer \<open>try\<close> block of \<open>initializeAuth\<close>.\<close>

definition initializeAuth_try ::
  "platform \<Rightarrow> auth_env \<Rightarrow> auth_state \<Rightarrow> medium \<Rightarrow> (js_error + unit) \<times> auth_state \<times> medium" where
  "initializeAuth_try P E a m =
     (case getCached P (t_start E) ''userProfile'' m of
        (Inl err, m1) \<Rightarrow> (Inl err, a, m1)
      | (Inr cached, m1) \<Rightarrow>
          (let m2 = (if truthy cached \<and> opt_prop cached ''role'' = JStr ''member''
                        \<and> truthy (opt_prop cached ''organization'')
                     then snd (clearCache ''userProfile'' m1) else m1)
           in case dev_mock E m2 of
                (Inl err, m3) \<Rightarrow> (Inl err, a, m3)
              | (Inr True, m3) \<Rightarrow>
                  (Inr (), (show_profile mockUser mockProfile a)\<lparr>loading := False\<rparr>, m3)
              | (Inr False, m3) \<Rightarrow>
                  (case check_session E of
                     Inl err \<Rightarrow> (Inl err, a, m3)
                   | Inr session \<Rightarrow>
                       if mounted_after_session E then
                         (let sessionUser = opt_prop session ''user'' in
                          if truthy sessionUser then
                            (case profile_stage P E sessionUser a m3 of
                               (Inl err, a1, m4) \<Rightarrow> (Inl err, a1, m4)
                             | (Inr u, a1, m4) \<Rightarrow> (Inr (), a1\<lparr>loading := False\<rparr>, m4))
                          else (Inr (), (clear_identity a)\<lparr>loading := False\<rparr>, m3))
                       else (Inr (), a, m3))))"

text \<open>\<open>initializeAuth\<close>, with the outer \<open>catch\<close> clause.\<close>

definition initializeAuth ::
  "platform \<Rightarrow> auth_env \<Rightarrow> auth_state \<Rightarrow> medium \<Rightarrow> auth_state \<times> medium" where
  "initializeAuth P E a m =
     (case initializeAuth_try P E a m of
        (Inr u, a1, m1) \<Rightarrow> (a1, m1)
      | (Inl err, a1, m1) \<Rightarrow>
          if mounted_on_failure E then
            ((clear_identity
                (a1\<lparr>error := JStr (if err_message err \<noteq> [] then err_message err
                                     else ''Auth initialization failed'')\<rparr>))\<lparr>loading := False\<rparr>,
             m1)
          else (a1, m1))"

section \<open>Vocabulary of the properties\<close>

text \<open>A medium none of whose calls throws, whatever happened before.\<close>

definition reliable :: "medium \<Rightarrow> bool" where
  "reliable m = (\<forall>h c. throws m h c = None)"

text \<open>A call of the medium stays in the namespace of the cache when the key it names
  carries the prefix; listing the keys names none.\<close>

definition in_namespace :: "call \<Rightarrow> bool" where
  "in_namespace c =
     (case c of
        GetItem k \<Rightarrow> startsWith CACHE_PREFIX k
      | SetItem k v \<Rightarrow> startsWith CACHE_PREFIX k
      | RemoveItem k \<Rightarrow> startsWith CACHE_PREFIX k
      | Keys \<Rightarrow> True)"

text \<open>The calls journalled between two states of the medium.\<close>

definition issued :: "medium \<Rightarrow> medium \<Rightarrow> call list" where
  "issued m m' = drop (length (calls m)) (calls m')"

text \<open>The items stored under keys without the prefix, in their order.\<close>

definition foreign_items :: "medium \<Rightarrow> (string \<times> string) list" where
  "foreign_items m = filter (\<lambda>kv. \<not> startsWith CACHE_PREFIX (fst kv)) (items m)"

definition stored_keys :: "medium \<Rightarrow> string list" where
  "stored_keys m = map fst (items m)"

text \<open>What every cache operation is to the medium: foreign items and failure behaviour
  untouched, journal extended by calls in the namespace.\<close>

definition cache_step :: "medium \<Rightarrow> medium \<Rightarrow> bool" where
  "cache_step m m' =
     (foreign_items m' = foreign_items m \<and> throws m' = throws m
      \<and> (\<exists>cs. calls m' = calls m @ cs \<and> list_all in_namespace cs))"

text \<open>Shapes of the authentication state. \<open>coherent\<close> is what every sequence of setters of
  \<open>initializeAuth\<close> keeps; \<open>pending\<close> adds that no error is recorded and \<open>loading\<close> is
  still set.\<close>

definition anonymous :: "auth_state \<Rightarrow> bool" where
  "anonymous a = (user a = JNull \<and> profile a = JNull \<and> organization a = JNull)"

definition coherent :: "auth_state \<Rightarrow> bool" where
  "coherent a =
     ((anonymous a \<or> truthy (user a) \<and> (profile a = JNull \<or> truthy (profile a)))
      \<and> organization a = or_null (opt_prop (profile a) ''organization''))"

definition pending :: "auth_state \<Rightarrow> bool" where
  "pending a = (coherent a \<and> error a = JNull \<and> loading a)"

section \<open>Concrete inputs\<close>

text \<open>
  A platform whose \<open>JSON.parse\<close> and \<open>JSON.stringify\<close> are given by a table of the texts
  that occur in the examples; any other text is a syntax error.
\<close>

definition demo_table :: "(string \<times> jsval) list" where
  \<open>demo_table =
     [(''{"data":[{"id":1,"name":"Acme"}],"expiresAt":1700000600000}'',
        JObj [(''data'', JArr [JObj [(''id'', JNum 1), (''name'', JStr ''Acme'')]]),
              (''expiresAt'', JNum 1700000600000)]),
      (''{"data":0,"expiresAt":1700000600000}'',
        JObj [(''data'', JNum 0), (''expiresAt'', JNum 1700000600000)])]\<close>

definition demo_platform :: platform where
  "demo_platform =
     \<lparr>JSON_parse = (\<lambda>s. case map_of demo_table s of
                          None \<Rightarrow> Inl (JsError ''SyntaxError'' ''Unexpected token'' [])
                        | Some v \<Rightarrow> Inr v),
      JSON_stringify = (\<lambda>v. case map_of (map (\<lambda>(s, v). (v, s)) demo_table) v of
                          None \<Rightarrow> Inl (TypeError ''Converting circular structure to JSON'')
                        | Some s \<Rightarrow> Inr s),
      CoerceNumber = (\<lambda>v. None)\<rparr>"

text \<open>Media: empty; with foreign keys and a profile entry; with a client list cached; the
  same when every call throws; with the number \<open>0\<close> cached.\<close>

definition fresh_medium :: medium where
  "fresh_medium = \<lparr>items = [], throws = (\<lambda>h c. None), calls = []\<rparr>"

definition demo_medium :: medium where
  "demo_medium =
     \<lparr>items = [(''theme'', ''dark''), (''app_cache_userProfile'', ''{}''), (''lastSessionCheck'', ''0'')],
      throws = (\<lambda>h c. None), calls = []\<rparr>"

definition warm_medium :: medium where
  \<open>warm_medium =
     \<lparr>items = [(''theme'', ''dark''),
               (''app_cache_clients'', ''{"data":[{"id":1,"name":"Acme"}],"expiresAt":1700000600000}'')],
      throws = (\<lambda>h c. None),
      calls = []\<rparr>\<close>

definition full_medium :: medium where
  "full_medium =
     warm_medium\<lparr>throws := (\<lambda>h c. Some (JsError ''QuotaExceededError'' ''The quota has been exceeded.'' []))\<rparr>"

definition falsy_medium :: medium where
  \<open>falsy_medium =
     \<lparr>items = [(''app_cache_count'', ''{"data":0,"expiresAt":1700000600000}'')],
      throws = (\<lambda>h c. None), calls = []\<rparr>\<close>

text \<open>Collections: the tentative entity of a create that is still pending; two clients.\<close>

definition pending_client :: jsval where
  "pending_client =
     JObj [(''id'', JStr ''temp-1700000000000''), (''name'', JStr ''FirstCo''),
           (''created_at'', JStr ''2023-11-14T22:13:20.000Z'')]"

definition acme_clients :: "jsval list" where
  "acme_clients =
     [JObj [(''id'', JStr ''c1''), (''name'', JStr ''Acme''), (''is_active'', JBool True)],
      JObj [(''id'', JStr ''c2''), (''name'', JStr ''Globex''), (''is_active'', JBool True)]]"

text \<open>Authentication: a signed-in state; an environment where the session is found and the
  profile fetch times out; one where the session request fails; one where the session
  check times out.\<close>

definition signed_in :: auth_state where
  "signed_in =
     \<lparr>user = JObj [(''id'', JStr ''u1''), (''email'', JStr ''test@test.com'')],
      profile = JObj [(''id'', JStr ''u1''), (''role'', JStr ''owner''),
                      (''organization'', JObj [(''id'', JStr ''o1'')])],
      organization = JObj [(''id'', JStr ''o1'')],
      loading = False, error = JNull\<rparr>"

definition quiet_ensure :: ensure_env where
  "quiet_ensure = \<lparr>fix_role = Inr None, insert_org = Inr (JNull, None), link_user = Inr None\<rparr>"

definition slow_profile_env :: auth_env where
  "slow_profile_env =
     \<lparr>production = True, has_window = True,
      first_session =
        Inr (JObj [(''user'', JObj [(''id'', JStr ''u1''), (''email'', JStr ''test@test.com'')])], None),
      second_session = Inr (JNull, None),
      session_timeout = False,
      mounted_after_session = True,
      first_profile = Inl (Error ''Profile fetch timeout''),
      ensure_first = quiet_ensure,
      insert_user = Inr None,
      second_profile = Inr None,
      ensure_second = quiet_ensure,
      mounted_after_profile = True,
      mounted_on_failure = True,
      t_start = 1700000000000, t_cached = 1700000000050, t_store = 1700000002050,
      t_fallback = 1700000002050\<rparr>"

definition offline_env :: auth_env where
  "offline_env = slow_profile_env\<lparr>first_session := Inl (Error ''Failed to fetch'')\<rparr>"

definition timeout_env :: auth_env where
  "timeout_env = slow_profile_env\<lparr>session_timeout := True\<rparr>"

section \<open>Properties of the cache layer\<close>

lemma startsWith_prefix [simp]: "startsWith p (p @ s)"
  by (simp add: startsWith_def)

text \<open>What one call of the medium does to its three fields.\<close>

lemma getItem_effect:
  "calls (snd (getItem k m)) = calls m @ [GetItem k]"
  "items (snd (getItem k m)) = items m"
  "throws (snd (getItem k m)) = throws m"
  by (simp_all add: getItem_def invoke_def split: option.splits)

lemma setItem_effect:
  "calls (snd (setItem k v m)) = calls m @ [SetItem k v]"
  "throws (snd (setItem k v m)) = throws m"
  "items (snd (setItem k v m)) =
     (if isl (fst (setItem k v m)) then items m else AList.update k v (items m))"
  by (simp_all add: setItem_def invoke_def split: option.splits)

lemma removeItem_effect:
  "calls (snd (removeItem k m)) = calls m @ [RemoveItem k]"
  "throws (snd (removeItem k m)) = throws m"
  "items (snd (removeItem k m)) =
     (if isl (fst (removeItem k m)) then items m else AList.delete k (items m))"
  by (simp_all add: removeItem_def invoke_def split: option.splits)

lemma keys_effect:
  "calls (snd (keys m)) = calls m @ [Keys]"
  "items (snd (keys m)) = items m"
  "throws (snd (keys m)) = throws m"
  by (simp_all add: keys_def invoke_def split: option.splits)

lemma reliable_getItem:
  "reliable m \<Longrightarrow> getItem k m = (Inr (map_of (items m) k), m\<lparr>calls := calls m @ [GetItem k]\<rparr>)"
  by (simp add: reliable_def getItem_def invoke_def)

lemma reliable_setItem:
  "reliable m \<Longrightarrow>
     setItem k v m = (Inr (), m\<lparr>calls := calls m @ [SetItem k v], items := AList.update k v (items m)\<rparr>)"
  by (simp add: reliable_def setItem_def invoke_def)

lemma reliable_removeItem:
  "reliable m \<Longrightarrow>
     removeItem k m = (Inr (), m\<lparr>calls := calls m @ [RemoveItem k], items := AList.delete k (items m)\<rparr>)"
  by (simp add: reliable_def removeItem_def invoke_def)

lemma reliable_keys:
  "reliable m \<Longrightarrow> keys m = (Inr (map fst (items m)), m\<lparr>calls := calls m @ [Keys]\<rparr>)"
  by (simp add: reliable_def keys_def invoke_def)

lemma reliable_update [simp]:
  "reliable (m\<lparr>calls := cs\<rparr>) = reliable m"
  "reliable (m\<lparr>items := its\<rparr>) = reliable m"
  by (simp_all add: reliable_def)

lemma foreign_items_update:
  "startsWith CACHE_PREFIX k \<Longrightarrow>
     filter (\<lambda>kv. \<not> startsWith CACHE_PREFIX (fst kv)) (AList.update k v xs)
       = filter (\<lambda>kv. \<not> startsWith CACHE_PREFIX (fst kv)) xs"
  by (induction xs) auto

lemma foreign_items_delete:
  "startsWith CACHE_PREFIX k \<Longrightarrow>
     filter (\<lambda>kv. \<not> startsWith CACHE_PREFIX (fst kv)) (AList.delete k xs)
       = filter (\<lambda>kv. \<not> startsWith CACHE_PREFIX (fst kv)) xs"
  by (induction xs) auto

lemma getItem_frame:
  "foreign_items (snd (getItem k m)) = foreign_items m"
  "issued m (snd (getItem k m)) = [GetItem k]"
  by (simp_all add: foreign_items_def issued_def getItem_effect)

lemma setItem_frame:
  "startsWith CACHE_PREFIX k \<Longrightarrow> foreign_items (snd (setItem k v m)) = foreign_items m"
  "issued m (snd (setItem k v m)) = [SetItem k v]"
  by (simp_all add: foreign_items_def issued_def setItem_effect foreign_items_update)

lemma removeItem_frame:
  "startsWith CACHE_PREFIX k \<Longrightarrow> foreign_items (snd (removeItem k m)) = foreign_items m"
  "issued m (snd (removeItem k m)) = [RemoveItem k]"
  by (simp_all add: foreign_items_def issued_def removeItem_effect foreign_items_delete)

lemma issued_refl [simp]: "issued m m = []"
  by (simp add: issued_def)

lemma cache_step_refl [simp]: "cache_step m m"
  by (simp add: cache_step_def)

lemma cache_step_trans: "cache_step m m1 \<Longrightarrow> cache_step m1 m2 \<Longrightarrow> cache_step m m2"
  by (auto simp: cache_step_def)

lemma cache_step_getItem: "startsWith CACHE_PREFIX k \<Longrightarrow> cache_step m (snd (getItem k m))"
  by (simp add: cache_step_def getItem_frame getItem_effect in_namespace_def)

lemma cache_step_setItem: "startsWith CACHE_PREFIX k \<Longrightarrow> cache_step m (snd (setItem k v m))"
  by (simp add: cache_step_def setItem_frame setItem_effect in_namespace_def)

lemma cache_step_removeItem: "startsWith CACHE_PREFIX k \<Longrightarrow> cache_step m (snd (removeItem k m))"
  by (simp add: cache_step_def removeItem_frame removeItem_effect in_namespace_def)

lemma cache_step_keys: "cache_step m (snd (keys m))"
  by (simp add: cache_step_def foreign_items_def keys_effect in_namespace_def)

lemma cache_step_issued: "cache_step m m' \<Longrightarrow> list_all in_namespace (issued m m')"
  by (auto simp: cache_step_def issued_def)

lemma cache_step_getCached_try: "cache_step m (snd (getCached_try P now key m))"
proof -
  obtain r m1 where g: "getItem (CACHE_PREFIX @ key) m = (r, m1)"
    by (cases "getItem (CACHE_PREFIX @ key) m")
  have s1: "cache_step m m1"
    using cache_step_getItem [of "CACHE_PREFIX @ key" m] g by simp
  obtain r2 m2 where rm: "removeItem (CACHE_PREFIX @ key) m1 = (r2, m2)"
    by (cases "removeItem (CACHE_PREFIX @ key) m1")
  have s2: "cache_step m m2"
    using cache_step_removeItem [of "CACHE_PREFIX @ key" m1] rm s1
    by (auto intro: cache_step_trans)
  show ?thesis
    using s1 s2 by (simp add: getCached_try_def g rm split: sum.splits option.splits prod.splits)
qed

lemma cache_step_getCached: "cache_step m (snd (getCached P now key m))"
  using cache_step_getCached_try [of m P now key]
  by (auto simp: getCached_def split: prod.splits sum.splits)

lemma cache_step_setCached: "cache_step m (snd (setCached P now key data ttl m))"
proof (cases "JSON_stringify P (JObj [(''data'', data), (''expiresAt'', JNum (now + ttl))])")
  case (Inl e)
  then show ?thesis
    by (simp add: setCached_def setCached_try_def)
next
  case (Inr s)
  then show ?thesis
    using cache_step_setItem [of "CACHE_PREFIX @ key" m s]
    by (auto simp: setCached_def setCached_try_def split: prod.splits sum.splits)
qed

lemma cache_step_clearCache: "cache_step m (snd (clearCache key m))"
  using cache_step_removeItem [of "CACHE_PREFIX @ key" m]
  by (auto simp: clearCache_def split: prod.splits sum.splits)

lemma cache_step_removeEach: "cache_step m (snd (removeEach ks m))"
proof (induction ks arbitrary: m)
  case Nil
  show ?case by simp
next
  case (Cons k ks)
  show ?case
  proof (cases "startsWith CACHE_PREFIX k")
    case False
    then show ?thesis using Cons.IH [of m] by simp
  next
    case True
    obtain r m1 where rm: "removeItem k m = (r, m1)"
      by (cases "removeItem k m")
    have s1: "cache_step m m1"
      using cache_step_removeItem [OF True, of m] rm by simp
    show ?thesis
      using True rm s1 cache_step_trans [OF s1 Cons.IH [of m1]]
      by (simp split: sum.splits)
  qed
qed

lemma cache_step_clearAllCaches: "cache_step m (snd (clearAllCaches m))"
proof -
  obtain r m1 where k: "keys m = (r, m1)"
    by (cases "keys m")
  have s1: "cache_step m m1"
    using cache_step_keys [of m] k by simp
  have "cache_step m (snd (clearAllCaches_try m))"
    using s1 cache_step_trans [OF s1 cache_step_removeEach [of m1]]
    by (simp add: clearAllCaches_try_def k split: sum.splits)
  then show ?thesis
    by (auto simp: clearAllCaches_def split: prod.splits sum.splits)
qed

lemma removeEach_reliable:
  "reliable m \<Longrightarrow>
     fst (removeEach ks m) = Inr ()
     \<and> items (snd (removeEach ks m))
         = filter (\<lambda>kv. \<not> (startsWith CACHE_PREFIX (fst kv) \<and> fst kv \<in> set ks)) (items m)"
proof (induction ks arbitrary: m)
  case Nil
  show ?case by simp
next
  case (Cons k ks)
  show ?case
  proof (cases "startsWith CACHE_PREFIX k")
    case False
    then show ?thesis using Cons.IH [OF Cons.prems]
      by (auto intro!: filter_cong)
  next
    case True
    let ?m1 = "m\<lparr>calls := calls m @ [RemoveItem k], items := AList.delete k (items m)\<rparr>"
    have r1: "reliable ?m1" using Cons.prems by simp
    show ?thesis
      using True Cons.IH [OF r1] reliable_removeItem [OF Cons.prems, of k]
      by (auto simp: AList.delete_eq intro!: filter_cong)
  qed
qed

lemma clearAllCaches_reliable:
  "reliable m \<Longrightarrow> items (snd (clearAllCaches m)) = foreign_items m"
proof -
  assume r: "reliable m"
  let ?m1 = "m\<lparr>calls := calls m @ [Keys]\<rparr>"
  have r1: "reliable ?m1" using r by simp
  have "items (snd (clearAllCaches_try m)) = foreign_items m"
    using removeEach_reliable [OF r1, of "map fst (items m)"] reliable_keys [OF r]
    by (auto simp: clearAllCaches_try_def foreign_items_def intro!: filter_cong)
  then show ?thesis
    by (auto simp: clearAllCaches_def split: prod.splits sum.splits)
qed

lemma setItem_raised: "setItem k v m = (r, m') \<Longrightarrow> isl r \<Longrightarrow> items m' = items m"
  by (auto simp: setItem_def invoke_def split: option.splits)

lemma removeItem_raised: "removeItem k m = (r, m') \<Longrightarrow> isl r \<Longrightarrow> items m' = items m"
  by (auto simp: removeItem_def invoke_def split: option.splits)

lemma setCached_reliable:
  assumes "reliable m"
      and "JSON_stringify P (JObj [(''data'', d), (''expiresAt'', JNum (now + ttl))]) = Inr s"
  shows "setCached P now key d ttl m =
           (Inr (), m\<lparr>calls := calls m @ [SetItem (CACHE_PREFIX @ key) s],
                       items := AList.update (CACHE_PREFIX @ key) s (items m)\<rparr>)"
  using assms by (simp add: setCached_def setCached_try_def reliable_setItem)

lemma getCached_fresh:
  assumes "reliable m"
      and "map_of (items m) (CACHE_PREFIX @ key) = Some s" and "s \<noteq> []"
      and "parse_entry P s = Inr (d, x)" and "\<not> num_gt P now x"
  shows "getCached P now key m = (Inr d, m\<lparr>calls := calls m @ [GetItem (CACHE_PREFIX @ key)]\<rparr>)"
  using assms by (simp add: getCached_def getCached_try_def reliable_getItem)

lemma getCached_expired:
  assumes "reliable m"
      and "map_of (items m) (CACHE_PREFIX @ key) = Some s" and "s \<noteq> []"
      and "parse_entry P s = Inr (d, x)" and "num_gt P now x"
  shows "getCached P now key m =
           (Inr JNull, m\<lparr>calls := calls m @ [GetItem (CACHE_PREFIX @ key), RemoveItem (CACHE_PREFIX @ key)],
                          items := AList.delete (CACHE_PREFIX @ key) (items m)\<rparr>)"
  using assms by (simp add: getCached_def getCached_try_def reliable_getItem reliable_removeItem)

lemma num_gt_JNum [simp]: "num_gt P now (JNum e) = (e < now)"
  by (simp add: num_gt_def ToNumber_def)

lemma getCached_truthy_keeps:
  assumes "getCached P now key m = (Inr c, m1)" and "truthy c"
  shows "items m1 = items m"
proof -
  obtain r n where g: "getItem (CACHE_PREFIX @ key) m = (r, n)"
    by (cases "getItem (CACHE_PREFIX @ key) m")
  have n: "items n = items m"
    using getItem_effect(2) [of "CACHE_PREFIX @ key" m] g by simp
  show ?thesis
    using assms n
    by (auto simp: getCached_def getCached_try_def g
          split: sum.splits option.splits prod.splits if_splits)
qed

lemma getCached_absent:
  assumes "map_of (items m) (CACHE_PREFIX @ key) = None"
  shows "fst (getCached P now key m) = Inr JNull"
  using assms
  by (auto simp: getCached_def getCached_try_def getItem_def invoke_def
        split: sum.splits option.splits prod.splits if_splits)

lemmas demo_defs = demo_platform_def demo_table_def demo_medium_def warm_medium_def full_medium_def
  falsy_medium_def CACHE_PREFIX_def parse_entry_def field_def



text \<open>
  Claim C5. A read of an entry whose expiry time has passed returns \<open>null\<close> and removes the entry, so the key is no longer among the stored keys; in particular for an entry stored by \<open>setCached\<close> once more than \<open>ttl\<close> milliseconds have passed.
\<close>

theorem expired_read_evicts:
  assumes "reliable m" and "s \<noteq> []" and "parse_entry P s = Inr (d, JNum e)" and "e < now'"
  shows "(map_of (items m) (CACHE_PREFIX @ key) = Some s \<longrightarrow>
            fst (getCached P now' key m) = Inr JNull
            \<and> CACHE_PREFIX @ key \<notin> set (stored_keys (snd (getCached P now' key m))))
       \<and> (JSON_stringify P (JObj [(''data'', v), (''expiresAt'', JNum (now + ttl))]) = Inr s
            \<and> e = now + ttl \<longrightarrow>
            fst (getCached P now' key (snd (setCached P now key v ttl m))) = Inr JNull
            \<and> CACHE_PREFIX @ key
                 \<notin> set (stored_keys (snd (getCached P now' key (snd (setCached P now key v ttl m))))))"
proof -
  have gen: "fst (getCached P now' key n) = Inr JNull
             \<and> CACHE_PREFIX @ key \<notin> set (stored_keys (snd (getCached P now' key n)))"
    if "reliable n" and "map_of (items n) (CACHE_PREFIX @ key) = Some s" for n
  proof -
    have ex: "num_gt P now' (JNum e)" using assms(4) by simp
    show ?thesis
      using getCached_expired [OF that assms(2,3) ex]
      by (simp add: stored_keys_def delete_keys)
  qed
  have part2: "fst (getCached P now' key (snd (setCached P now key v ttl m))) = Inr JNull
            \<and> CACHE_PREFIX @ key
                 \<notin> set (stored_keys (snd (getCached P now' key (snd (setCached P now key v ttl m)))))"
    if st: "JSON_stringify P (JObj [(''data'', v), (''expiresAt'', JNum (now + ttl))]) = Inr s"
  proof -
    let ?m1 = "m\<lparr>calls := calls m @ [SetItem (CACHE_PREFIX @ key) s],
                   items := AList.update (CACHE_PREFIX @ key) s (items m)\<rparr>"
    have r1: "reliable ?m1" using assms(1) by simp
    have l1: "map_of (items ?m1) (CACHE_PREFIX @ key) = Some s"
      by (simp add: update_conv')
    show ?thesis
      using setCached_reliable [OF assms(1) st, of key] gen [OF r1 l1] by simp
  qed
  show ?thesis using gen [OF assms(1)] part2 by blast
qed

theorem expired_read_evicts_witness:
  \<open>reliable demo_medium
   \<and> parse_entry demo_platform ''{"data":[{"id":1,"name":"Acme"}],"expiresAt":1700000600000}''
       = Inr (JArr [JObj [(''id'', JNum 1), (''name'', JStr ''Acme'')]], JNum 1700000600000)
   \<and> JSON_stringify demo_platform
        (JObj [(''data'', JArr [JObj [(''id'', JNum 1), (''name'', JStr ''Acme'')]]),
               (''expiresAt'', JNum (1700000000000 + 600000))])
       = Inr ''{"data":[{"id":1,"name":"Acme"}],"expiresAt":1700000600000}''
   \<and> fst (getCached demo_platform 1700000600001 ''clients''
            (snd (setCached demo_platform 1700000000000 ''clients''
                    (JArr [JObj [(''id'', JNum 1), (''name'', JStr ''Acme'')]]) 600000 demo_medium)))
       = Inr JNull
   \<and> CACHE_PREFIX @ ''clients''
        \<notin> set (stored_keys (snd (getCached demo_platform 1700000600001 ''clients''
            (snd (setCached demo_platform 1700000000000 ''clients''
                    (JArr [JObj [(''id'', JNum 1), (''name'', JStr ''Acme'')]]) 600000 demo_medium)))))\<close>
proof -
  have h1: "reliable demo_medium"
    by (simp add: reliable_def demo_medium_def)
  have h2: \<open>''{"data":[{"id":1,"name":"Acme"}],"expiresAt":1700000600000}'' \<noteq> []\<close>
    by simp
  have h3: \<open>parse_entry demo_platform ''{"data":[{"id":1,"name":"Acme"}],"expiresAt":1700000600000}''
       = Inr (JArr [JObj [(''id'', JNum 1), (''name'', JStr ''Acme'')]], JNum 1700000600000)\<close>
    by (simp add: demo_defs)
  have h4: "(1700000600000::int) < 1700000600001" by simp
  have h5: \<open>JSON_stringify demo_platform
        (JObj [(''data'', JArr [JObj [(''id'', JNum 1), (''name'', JStr ''Acme'')]]),
               (''expiresAt'', JNum (1700000000000 + 600000))])
       = Inr ''{"data":[{"id":1,"name":"Acme"}],"expiresAt":1700000600000}''\<close>
    by (simp add: demo_defs)
  show ?thesis
    using h1 h3 h5
      expired_read_evicts [OF h1 h2 h3 h4, of "''clients''"
        "JArr [JObj [(''id'', JNum 1), (''name'', JStr ''Acme'')]]" 1700000000000 600000]
    by simp
qed

text \<open>
  Claim C7. No cache operation lets an error escape: whenever the body of the \<open>try\<close> block raises, \<open>getCached\<close> returns \<open>null\<close>, and \<open>setCached\<close> and \<open>clearCache\<close> leave the stored items as they were.
\<close>

theorem cache_swallows_medium_errors:
  "\<not> isl (fst (getCached P now key m))
   \<and> \<not> isl (fst (setCached P now key v ttl m))
   \<and> \<not> isl (fst (clearCache key m))
   \<and> \<not> isl (fst (clearAllCaches m))
   \<and> (isl (fst (getCached_try P now key m)) \<longrightarrow> fst (getCached P now key m) = Inr JNull)
   \<and> (isl (fst (setCached_try P now key v ttl m)) \<longrightarrow>
        items (snd (setCached P now key v ttl m)) = items m)
   \<and> (isl (fst (removeItem (CACHE_PREFIX @ key) m)) \<longrightarrow>
        items (snd (clearCache key m)) = items m)"
proof -
  have a: "\<not> isl (fst (getCached P now key m))"
    by (simp add: getCached_def split: prod.splits sum.splits)
  have b: "\<not> isl (fst (setCached P now key v ttl m))"
    by (simp add: setCached_def split: prod.splits sum.splits)
  have c: "\<not> isl (fst (clearCache key m))"
    by (simp add: clearCache_def split: prod.splits sum.splits)
  have d: "\<not> isl (fst (clearAllCaches m))"
    by (simp add: clearAllCaches_def split: prod.splits sum.splits)
  have e: "isl (fst (getCached_try P now key m)) \<longrightarrow> fst (getCached P now key m) = Inr JNull"
    by (auto simp: getCached_def split: prod.splits sum.splits)
  have f: "isl (fst (setCached_try P now key v ttl m)) \<longrightarrow>
        items (snd (setCached P now key v ttl m)) = items m"
    by (auto simp: setCached_def setCached_try_def split: prod.splits sum.splits
          dest: setItem_raised)
  have g: "isl (fst (removeItem (CACHE_PREFIX @ key) m)) \<longrightarrow>
        items (snd (clearCache key m)) = items m"
    by (auto simp: clearCache_def split: prod.splits sum.splits dest: removeItem_raised)
  show ?thesis using a b c d e f g by blast
qed

theorem cache_swallows_medium_errors_witness:
  \<open>isl (fst (getCached_try demo_platform 1700000000000 ''clients'' full_medium))
   \<and> fst (getCached demo_platform 1700000000000 ''clients'' full_medium) = Inr JNull
   \<and> isl (fst (setCached_try demo_platform 1700000000000 ''clients''
              (JArr [JObj [(''id'', JNum 1), (''name'', JStr ''Acme'')]]) 600000 full_medium))
   \<and> items (snd (setCached demo_platform 1700000000000 ''clients''
              (JArr [JObj [(''id'', JNum 1), (''name'', JStr ''Acme'')]]) 600000 full_medium))
       = items full_medium
   \<and> isl (fst (removeItem (CACHE_PREFIX @ ''clients'') full_medium))
   \<and> items (snd (clearCache ''clients'' full_medium)) = items full_medium\<close>
proof -
  have h1: "isl (fst (getCached_try demo_platform 1700000000000 ''clients'' full_medium))"
    by (simp add: getCached_try_def getItem_def invoke_def full_medium_def warm_medium_def)
  have h2: "isl (fst (setCached_try demo_platform 1700000000000 ''clients''
              (JArr [JObj [(''id'', JNum 1), (''name'', JStr ''Acme'')]]) 600000 full_medium))"
    by (simp add: setCached_try_def setItem_def invoke_def demo_defs)
  have h3: "isl (fst (removeItem (CACHE_PREFIX @ ''clients'') full_medium))"
    by (simp add: removeItem_def invoke_def full_medium_def warm_medium_def)
  show ?thesis
    using h1 h2 h3
      cache_swallows_medium_errors [of demo_platform 1700000000000 "''clients''" full_medium
        "JArr [JObj [(''id'', JNum 1), (''name'', JStr ''Acme'')]]" 600000]
    by simp
qed

text \<open>
  Claim C9. Every keyed call that a cache operation issues on the medium carries the prefix, the items stored under other keys are left as they were, and on a medium that accepts the calls \<open>clearAllCaches\<close> leaves exactly those items.
\<close>

theorem cache_namespace_frame:
  "list_all in_namespace (issued m (snd (getCached P now key m)))
   \<and> foreign_items (snd (getCached P now key m)) = foreign_items m
   \<and> list_all in_namespace (issued m (snd (setCached P now key v ttl m)))
   \<and> foreign_items (snd (setCached P now key v ttl m)) = foreign_items m
   \<and> list_all in_namespace (issued m (snd (clearCache key m)))
   \<and> foreign_items (snd (clearCache key m)) = foreign_items m
   \<and> list_all in_namespace (issued m (snd (clearAllCaches m)))
   \<and> foreign_items (snd (clearAllCaches m)) = foreign_items m
   \<and> (reliable m \<longrightarrow> items (snd (clearAllCaches m)) = foreign_items m)"
  using cache_step_getCached [of m P now key] cache_step_setCached [of m P now key v ttl]
    cache_step_clearCache [of m key] cache_step_clearAllCaches [of m]
    clearAllCaches_reliable [of m]
  by (simp add: cache_step_issued) (simp add: cache_step_def)

theorem cache_namespace_frame_witness:
  "reliable demo_medium
   \<and> items (snd (clearAllCaches demo_medium)) = [(''theme'', ''dark''), (''lastSessionCheck'', ''0'')]"
proof -
  have h1: "reliable demo_medium"
    by (simp add: reliable_def demo_medium_def)
  have h2: "foreign_items demo_medium = [(''theme'', ''dark''), (''lastSessionCheck'', ''0'')]"
    by (simp add: foreign_items_def demo_medium_def CACHE_PREFIX_def startsWith_def)
  show ?thesis
    using h1 h2 cache_namespace_frame [of demo_medium demo_platform 0 "''clients''" JNull 0]
    by simp
qed

text \<open>
  Claim C3. (as amended) With a failing fetch, \<open>fetchWithCache\<close> resolves with the cached value when \<open>getCached\<close> yields a truthy value, leaving the stored items in place, and rejects with the error of the fetch otherwise.
\<close>

theorem fetchWithCache_failure:
  assumes "getCached P now key m = (Inr cached, m1)"
  shows "fetchWithCache P now later key (Inl err) ttl m
           = (if truthy cached then Inr cached else Inl err, m1)
       \<and> (truthy cached \<longrightarrow> items m1 = items m)
       \<and> (map_of (items m) (CACHE_PREFIX @ key) = None \<longrightarrow> \<not> truthy cached)
       \<and> (reliable m \<and> map_of (items m) (CACHE_PREFIX @ key) = Some s \<and> s \<noteq> []
            \<and> parse_entry P s = Inr (d, x) \<and> \<not> num_gt P now x \<longrightarrow> cached = d)"
proof -
  have a: "fetchWithCache P now later key (Inl err) ttl m
           = (if truthy cached then Inr cached else Inl err, m1)"
    using assms by (simp add: fetchWithCache_def)
  have b: "truthy cached \<longrightarrow> items m1 = items m"
    using getCached_truthy_keeps [OF assms] by simp
  have c: "map_of (items m) (CACHE_PREFIX @ key) = None \<longrightarrow> \<not> truthy cached"
    using getCached_absent [of m key P now] assms by auto
  have d: "reliable m \<and> map_of (items m) (CACHE_PREFIX @ key) = Some s \<and> s \<noteq> []
            \<and> parse_entry P s = Inr (d, x) \<and> \<not> num_gt P now x \<longrightarrow> cached = d"
    using getCached_fresh [of m key s P d x now] assms by auto
  show ?thesis using a b c d by blast
qed

theorem fetchWithCache_failure_witness:
  \<open>getCached demo_platform 1700000000000 ''clients'' warm_medium
     = (Inr (JArr [JObj [(''id'', JNum 1), (''name'', JStr ''Acme'')]]),
        warm_medium\<lparr>calls := [GetItem ''app_cache_clients'']\<rparr>)
   \<and> fetchWithCache demo_platform 1700000000000 1700000000500 ''clients''
        (Inl (Error ''network'')) 600000 warm_medium
     = (Inr (JArr [JObj [(''id'', JNum 1), (''name'', JStr ''Acme'')]]),
        warm_medium\<lparr>calls := [GetItem ''app_cache_clients'']\<rparr>)\<close>
proof -
  have h1: \<open>getCached demo_platform 1700000000000 ''clients'' warm_medium
     = (Inr (JArr [JObj [(''id'', JNum 1), (''name'', JStr ''Acme'')]]),
        warm_medium\<lparr>calls := [GetItem ''app_cache_clients'']\<rparr>)\<close>
    by (simp add: getCached_def getCached_try_def getItem_def invoke_def demo_defs)
  show ?thesis
    using h1 fetchWithCache_failure [OF h1, of 1700000000500 "Error ''network''" 600000]
    by simp
qed

text \<open>
  The claim as it was stated fails: an unexpired entry holding the number \<open>0\<close> is stored under the key, \<open>getCached\<close> returns it, and the failure of the fetch is surfaced all the same.
\<close>

theorem fetchWithCache_counterexample:
  \<open>map_of (items falsy_medium) (CACHE_PREFIX @ ''count'')
       = Some ''{"data":0,"expiresAt":1700000600000}''
   \<and> parse_entry demo_platform ''{"data":0,"expiresAt":1700000600000}''
       = Inr (JNum 0, JNum 1700000600000)
   \<and> \<not> num_gt demo_platform 1700000000000 (JNum 1700000600000)
   \<and> fst (getCached demo_platform 1700000000000 ''count'' falsy_medium) = Inr (JNum 0)
   \<and> fst (fetchWithCache demo_platform 1700000000000 1700000000000 ''count''
            (Inl (Error ''network'')) 600000 falsy_medium) = Inl (Error ''network'')\<close>
  by (simp add: falsy_medium_def CACHE_PREFIX_def parse_entry_def demo_platform_def demo_table_def
      field_def fetchWithCache_def getCached_def getCached_try_def getItem_def invoke_def)

section \<open>Properties of the client hooks\<close>

lemma decimal_example: "decimal 1700000000500 = ''1700000000500''"
  by (simp add: decimal_def digits.simps)

text \<open>
  Claim C1. The rollback of \<open>create\<close> filters out every entity whose identifier starts with \<open>temp-\<close>. With a collection that holds the tentative entity of an earlier, still pending create, a create whose remote call fails ends with an empty collection: the earlier entity, present before the call, is gone.
\<close>

theorem create_rollback_drops_pending:
  "fst (useClients_create [pending_client] [(''name'', JStr ''NewCo'')] 1700000000500
          ''2023-11-14T22:13:20.500Z'' (Inl (Error ''network'')) demo_medium)
     = \<lparr>during = Inr [pending_client,
                       JObj [(''id'', JStr ''temp-1700000000500''), (''name'', JStr ''NewCo''),
                             (''created_at'', JStr ''2023-11-14T22:13:20.500Z'')]],
        final = Inr [],
        returned = Inr (JNull, Some (Error ''network'')),
        toasts = [ToastError ''Failed to create client'']\<rparr>
   \<and> Inr [] \<noteq> (Inr [pending_client] :: js_error + jsval list)"
  by (simp add: useClients_create_def optimisticClient_def spread_def decimal_example
      pending_client_def not_temp_def get_prop_def field_def startsWith_def)

lemma map_of_spread_other:
  "k \<notin> fst ` set b \<Longrightarrow> map_of (spread a b) k = map_of a k"
  unfolding spread_def
  by (induction b arbitrary: a) (auto simp: update_conv')

lemma array_filter_last:
  assumes "\<forall>c \<in> set xs. p c = Inr True" and "p y = Inr False"
  shows "array_filter p (xs @ [y]) = Inr xs"
  using assms by (induction xs) simp_all

lemma not_temp_optimistic:
  assumes "''id'' \<notin> fst ` set clientData"
  shows "not_temp (optimisticClient now stamp clientData) = Inr False"
proof -
  have "map_of (spread (spread [(''id'', JStr (''temp-'' @ decimal now))] clientData)
                  [(''created_at'', JStr stamp)]) ''id''
          = Some (JStr (''temp-'' @ decimal now))"
    using assms by (simp add: map_of_spread_other)
  then show ?thesis
    by (simp add: not_temp_def optimisticClient_def get_prop_def field_def startsWith_def)
qed

text \<open>
  Where no entity of the collection has an identifier starting with \<open>temp-\<close> and the data of the new client has no \<open>id\<close> field, the rollback of \<open>create\<close> does restore the collection.
\<close>

lemma create_rollback_restores:
  assumes "\<forall>c \<in> set clients. not_temp c = Inr True"
      and "''id'' \<notin> fst ` set clientData"
  shows "final (fst (useClients_create clients clientData now stamp (Inl err) m)) = Inr clients"
  using array_filter_last [OF assms(1) not_temp_optimistic [OF assms(2)]]
  by (simp add: useClients_create_def Let_def)

text \<open>
  Claim C2. The rollback \<open>setClients(prevClients)\<close> stands in the \<open>catch\<close> clause, where \<open>prevClients\<close>, declared in the \<open>try\<close> block, is not in scope. When the remote update fails, evaluating it throws a \<open>ReferenceError\<close>: the promise of \<open>update\<close> rejects, no notification is raised, and the collection keeps the optimistic change instead of returning to the snapshot.
\<close>

theorem update_failure_keeps_optimistic_change:
  "useClients_update acme_clients acme_clients ''c1'' [(''name'', JStr ''Acme Ltd'')]
       (Inl (Error ''network'')) demo_medium
     = (\<lparr>during = Inr [JObj [(''id'', JStr ''c1''), (''name'', JStr ''Acme Ltd''), (''is_active'', JBool True)],
                        JObj [(''id'', JStr ''c2''), (''name'', JStr ''Globex''), (''is_active'', JBool True)]],
         final = Inr [JObj [(''id'', JStr ''c1''), (''name'', JStr ''Acme Ltd''), (''is_active'', JBool True)],
                      JObj [(''id'', JStr ''c2''), (''name'', JStr ''Globex''), (''is_active'', JBool True)]],
         returned = Inl (ReferenceError ''prevClients is not defined''),
         toasts = []\<rparr>,
        demo_medium)
   \<and> Inr [JObj [(''id'', JStr ''c1''), (''name'', JStr ''Acme Ltd''), (''is_active'', JBool True)],
           JObj [(''id'', JStr ''c2''), (''name'', JStr ''Globex''), (''is_active'', JBool True)]]
       \<noteq> (Inr acme_clients :: js_error + jsval list)"
  by (simp add: useClients_update_def acme_clients_def merge_into_def get_prop_def field_def
      spread_def own_fields_def resolve_def Let_def)

text \<open>
  The same holds for every call of \<open>update\<close> whose remote call fails.
\<close>

lemma update_failure_general:
  "useClients_update clients current clientId updates (Inl err) m
     = (\<lparr>during = array_map (merge_into clientId updates) current,
         final = array_map (merge_into clientId updates) current,
         returned = Inl (ReferenceError ''prevClients is not defined''),
         toasts = []\<rparr>, m)"
  by (simp add: useClients_update_def resolve_def Let_def)

text \<open>
  Claim C4. (as amended) \<open>useClient().update\<close> applies no tentative change: while the remote call is pending the client state is the prior state. When the call fails the state stays as it was and the error is returned with an error notification; when it succeeds the row returned is merged over the state.
\<close>

theorem useClient_update_remote_first:
  "during (useClient_update client updates updated) = Inr client
   \<and> useClient_update client updates (Inl err)
     = \<lparr>during = Inr client, final = Inr client, returned = Inr (JNull, Some err),
        toasts = [ToastError ''Failed to update client'']\<rparr>
   \<and> useClient_update client updates (Inr updatedClient)
     = \<lparr>during = Inr client, final = Inr (JObj (spread (own_fields client) updatedClient)),
        returned = Inr (JObj updatedClient, None),
        toasts = [ToastSuccess ''Client updated successfully'']\<rparr>"
proof -
  have pending_state: "during (useClient_update client updates updated) = Inr client"
  proof (cases updated)
    case (Inl e)
    then show ?thesis by (simp add: useClient_update_def)
  next
    case (Inr row)
    then show ?thesis by (simp add: useClient_update_def)
  qed
  have failure: "useClient_update client updates (Inl err)
     = \<lparr>during = Inr client, final = Inr client, returned = Inr (JNull, Some err),
        toasts = [ToastError ''Failed to update client'']\<rparr>"
    by (simp add: useClient_update_def)
  have success: "useClient_update client updates (Inr updatedClient)
     = \<lparr>during = Inr client, final = Inr (JObj (spread (own_fields client) updatedClient)),
        returned = Inr (JObj updatedClient, None),
        toasts = [ToastSuccess ''Client updated successfully'']\<rparr>"
    by (simp add: useClient_update_def)
  show ?thesis
    using pending_state failure success by simp
qed

text \<open>
  The claim as it was stated fails: while the remote call of \<open>useClient().update\<close> is pending, the client state does not carry the change, which \<open>useClients().update\<close> does apply at that point.
\<close>

theorem useClient_update_counterexample:
  "during (useClient_update (JObj [(''id'', JStr ''c1''), (''name'', JStr ''Acme'')])
             [(''name'', JStr ''Acme Ltd'')] (Inl (Error ''network'')))
     = Inr (JObj [(''id'', JStr ''c1''), (''name'', JStr ''Acme'')])
   \<and> JObj (spread (own_fields (JObj [(''id'', JStr ''c1''), (''name'', JStr ''Acme'')]))
             [(''name'', JStr ''Acme Ltd'')])
       = JObj [(''id'', JStr ''c1''), (''name'', JStr ''Acme Ltd'')]
   \<and> during (fst (useClients_update [JObj [(''id'', JStr ''c1''), (''name'', JStr ''Acme'')]]
                    [JObj [(''id'', JStr ''c1''), (''name'', JStr ''Acme'')]] ''c1''
                    [(''name'', JStr ''Acme Ltd'')] (Inl (Error ''network'')) demo_medium))
       = Inr [JObj [(''id'', JStr ''c1''), (''name'', JStr ''Acme Ltd'')]]"
  by (simp add: useClient_update_def useClients_update_def merge_into_def get_prop_def field_def
      spread_def own_fields_def resolve_def Let_def)

section \<open>Properties of the authentication context\<close>

lemma signOut_reliable:
  assumes "reliable m"
  shows "signOut remote a m =
     (let m2 = m\<lparr>calls := calls m @ [RemoveItem ''dev:mockAuth'', RemoveItem (CACHE_PREFIX @ ''userProfile'')],
                 items := AList.delete (CACHE_PREFIX @ ''userProfile'') (AList.delete ''dev:mockAuth'' (items m))\<rparr>
      in case remote of
           Inl err \<Rightarrow> (Some err, a\<lparr>error := JStr (err_message err)\<rparr>, m2)
         | Inr (Some err) \<Rightarrow> (Some err, a\<lparr>error := JStr (err_message err)\<rparr>, m2)
         | Inr None \<Rightarrow> (None, clear_identity (a\<lparr>error := JNull\<rparr>), m2))"
  using assms
  by (simp add: signOut_def clearCache_def reliable_removeItem Let_def
      split: sum.splits option.splits)

text \<open>
  Claim C10. When the remote sign-out fails, by rejecting or by returning an error, \<open>signOut\<close> returns that error, the user, profile and organization are as before, the error message is recorded, and the cached profile is no longer stored (on a medium that accepts the calls). Only a successful remote sign-out sets the three to \<open>null\<close>.
\<close>

theorem signOut_remote_failure:
  assumes "remote = Inl err \<or> remote = Inr (Some err)" and "reliable m"
  shows "fst (signOut remote a m) = Some err
       \<and> user (fst (snd (signOut remote a m))) = user a
       \<and> profile (fst (snd (signOut remote a m))) = profile a
       \<and> organization (fst (snd (signOut remote a m))) = organization a
       \<and> error (fst (snd (signOut remote a m))) = JStr (err_message err)
       \<and> CACHE_PREFIX @ ''userProfile'' \<notin> set (stored_keys (snd (snd (signOut remote a m))))
       \<and> fst (getCached P now ''userProfile'' (snd (snd (signOut remote a m)))) = Inr JNull
       \<and> fst (snd (signOut (Inr None) a m)) = clear_identity (a\<lparr>error := JNull\<rparr>)"
proof -
  let ?m2 = "m\<lparr>calls := calls m @ [RemoveItem ''dev:mockAuth'', RemoveItem (CACHE_PREFIX @ ''userProfile'')],
                 items := AList.delete (CACHE_PREFIX @ ''userProfile'') (AList.delete ''dev:mockAuth'' (items m))\<rparr>"
  have s: "signOut remote a m = (Some err, a\<lparr>error := JStr (err_message err)\<rparr>, ?m2)"
    using assms(1) signOut_reliable [OF assms(2), of remote a] by (auto simp: Let_def)
  have gone: "map_of (items ?m2) (CACHE_PREFIX @ ''userProfile'') = None"
    by (simp add: delete_conv')
  have k: "CACHE_PREFIX @ ''userProfile'' \<notin> set (stored_keys ?m2)"
    by (simp add: stored_keys_def delete_keys)
  have ok: "fst (signOut (Inr None) a m) = None
            \<and> fst (snd (signOut (Inr None) a m)) = clear_identity (a\<lparr>error := JNull\<rparr>)"
    using signOut_reliable [OF assms(2), of "Inr None" a] by (simp add: Let_def)
  show ?thesis
    using s k ok getCached_absent [OF gone, of P now] by simp
qed

theorem signOut_remote_failure_witness:
  "reliable demo_medium
   \<and> fst (signOut (Inl (Error ''Failed to fetch'')) signed_in demo_medium)
       = Some (Error ''Failed to fetch'')
   \<and> user (fst (snd (signOut (Inl (Error ''Failed to fetch'')) signed_in demo_medium)))
       = user signed_in
   \<and> error (fst (snd (signOut (Inl (Error ''Failed to fetch'')) signed_in demo_medium)))
       = JStr ''Failed to fetch''
   \<and> ''app_cache_userProfile'' \<in> set (stored_keys demo_medium)
   \<and> ''app_cache_userProfile''
        \<notin> set (stored_keys (snd (snd (signOut (Inl (Error ''Failed to fetch'')) signed_in demo_medium))))"
proof -
  have h1: "(Inl (Error ''Failed to fetch'') :: js_error + js_error option) = Inl (Error ''Failed to fetch'')
            \<or> (Inl (Error ''Failed to fetch'') :: js_error + js_error option) = Inr (Some (Error ''Failed to fetch''))"
    by simp
  have h2: "reliable demo_medium"
    by (simp add: reliable_def demo_medium_def)
  have h3: "''app_cache_userProfile'' \<in> set (stored_keys demo_medium)"
    by (simp add: stored_keys_def demo_medium_def)
  show ?thesis
    using h2 h3 signOut_remote_failure [OF h1 h2, of signed_in demo_platform 0]
    by (simp add: CACHE_PREFIX_def Error_def)
qed

lemma opt_prop_simps [simp]:
  "opt_prop JNull k = JUndefined" "opt_prop JUndefined k = JUndefined"
  "opt_prop (JObj fs) k = field fs k"
  by (simp_all add: opt_prop_def)

lemma or_null_simps [simp]: "or_null JUndefined = JNull" "or_null JNull = JNull"
  by (simp_all add: or_null_def)

lemma or_null_cases: "or_null v = JNull \<or> truthy (or_null v)"
  by (simp add: or_null_def)

lemma coherent_show_profile:
  "truthy u \<Longrightarrow> truthy p \<Longrightarrow> coherent (show_profile u p a)"
  by (simp add: coherent_def show_profile_def)

lemma pending_show_profile:
  "truthy u \<Longrightarrow> truthy p \<Longrightarrow> pending a \<Longrightarrow> pending (show_profile u p a)"
  by (simp add: pending_def coherent_def show_profile_def)

lemma pending_set_user:
  "truthy u \<Longrightarrow> pending a \<Longrightarrow> pending (a\<lparr>user := u\<rparr>)"
  by (auto simp: pending_def coherent_def anonymous_def)

lemma pending_adopt_profile:
  "truthy u \<Longrightarrow> pending a \<Longrightarrow> pending (fst (adopt_profile P E u pd a m))"
  by (simp add: adopt_profile_def pending_show_profile split: option.splits)

lemma pending_load_profile:
  assumes "truthy u" and "pending a"
  shows "pending (fst (snd (load_profile P E u a m)))"
proof -
  obtain r m1 where g: "getCached P (t_cached E) ''userProfile'' m = (r, m1)"
    by (cases "getCached P (t_cached E) ''userProfile'' m")
  show ?thesis
    using assms
    by (auto simp: load_profile_def g Let_def pending_show_profile pending_adopt_profile
          split: sum.splits prod.splits)
qed

lemma pending_recover_profile:
  assumes "truthy u" and "pending a"
  shows "pending (fst (snd (recover_profile P E u err a m)))"
proof -
  obtain r m1 where g: "getCached P (t_fallback E) ''userProfile'' m = (r, m1)"
    by (cases "getCached P (t_fallback E) ''userProfile'' m")
  show ?thesis
    using assms
    by (auto simp: recover_profile_def g Let_def pending_show_profile pending_adopt_profile
          pending_set_user split: sum.splits prod.splits option.splits)
qed

lemma pending_profile_stage:
  assumes "truthy u" and "pending a"
  shows "pending (fst (snd (profile_stage P E u a m)))"
proof -
  obtain r a1 m1 where l: "load_profile P E u a m = (r, a1, m1)"
    by (cases "load_profile P E u a m")
  have p1: "pending a1"
    using pending_load_profile [OF assms, of P E m] l by simp
  show ?thesis
    using p1 pending_recover_profile [OF assms(1) p1]
    by (simp add: profile_stage_def l split: sum.splits)
qed

lemma initializeAuth_try_pending:
  assumes "pending a"
  shows "pending (fst (snd (initializeAuth_try P E a m)))
         \<or> \<not> isl (fst (initializeAuth_try P E a m))
           \<and> coherent (fst (snd (initializeAuth_try P E a m)))
           \<and> error (fst (snd (initializeAuth_try P E a m))) = JNull"
proof -
  obtain r m1 where g: "getCached P (t_start E) ''userProfile'' m = (r, m1)"
    by (cases "getCached P (t_start E) ''userProfile'' m")
  show ?thesis
  proof (cases r)
    case (Inl e)
    then show ?thesis using assms by (simp add: initializeAuth_try_def g)
  next
    case (Inr cached)
    let ?m2 = "if truthy cached \<and> opt_prop cached ''role'' = JStr ''member''
                        \<and> truthy (opt_prop cached ''organization'')
                     then snd (clearCache ''userProfile'' m1) else m1"
    obtain d m3 where dm: "dev_mock E ?m2 = (d, m3)"
      by (cases "dev_mock E ?m2")
    have mock: "coherent ((show_profile mockUser mockProfile a)\<lparr>loading := False\<rparr>)
                \<and> error ((show_profile mockUser mockProfile a)\<lparr>loading := False\<rparr>) = JNull"
      using assms
      by (simp add: pending_def coherent_def anonymous_def show_profile_def mockUser_def mockProfile_def)
    have cleared: "coherent ((clear_identity a)\<lparr>loading := False\<rparr>)
                \<and> error ((clear_identity a)\<lparr>loading := False\<rparr>) = JNull"
      using assms by (simp add: pending_def coherent_def anonymous_def clear_identity_def)
    have stage: "pending a1 \<and> coherent (a1\<lparr>loading := False\<rparr>) \<and> error (a1\<lparr>loading := False\<rparr>) = JNull"
      if "truthy u" and "profile_stage P E u a m3 = (x, a1, m4)" for u x a1 m4
      using pending_profile_stage [OF that(1) assms, of P E m3] that(2)
      by (auto simp: pending_def coherent_def anonymous_def)
    show ?thesis
    proof (cases d)
      case (Inl e)
      then show ?thesis using assms by (simp add: initializeAuth_try_def g \<open>r = Inr cached\<close> dm Let_def)
    next
      case d: (Inr flag)
      show ?thesis
      proof (cases flag)
        case True
        then show ?thesis
          using mock by (simp add: initializeAuth_try_def g \<open>r = Inr cached\<close> dm d Let_def)
      next
        case False
        show ?thesis
        proof (cases "check_session E")
          case (Inl e)
          then show ?thesis
            using assms by (simp add: initializeAuth_try_def g \<open>r = Inr cached\<close> dm d False Let_def)
        next
          case s: (Inr session)
          obtain x a1 m4 where ps: "profile_stage P E (opt_prop session ''user'') a m3 = (x, a1, m4)"
            by (cases "profile_stage P E (opt_prop session ''user'') a m3")
          show ?thesis
            using assms cleared stage [OF _ ps]
            by (auto simp: initializeAuth_try_def g \<open>r = Inr cached\<close> dm d False s ps Let_def
                  split: sum.splits)
        qed
      qed
    qed
  qed
qed

text \<open>
  The two paths of the bootstrap on which a failure does not reach the outer handler. In a
  production build the development shortcut is off.
\<close>

lemma getCached_returns: "\<exists>v m1. getCached P now key m = (Inr v, m1)"
proof (cases "getCached_try P now key m")
  case (Pair r m1)
  then show ?thesis
    by (cases r) (simp_all add: getCached_def)
qed

lemma getCached_absent_keeps:
  assumes "map_of (items m) (CACHE_PREFIX @ key) = None"
  shows "\<exists>m1. getCached P now key m = (Inr JNull, m1) \<and> items m1 = items m"
proof (cases "throws m (calls m) (GetItem (CACHE_PREFIX @ key))")
  case None
  then show ?thesis
    using assms by (simp add: getCached_def getCached_try_def getItem_def invoke_def)
next
  case (Some e)
  then show ?thesis
    by (simp add: getCached_def getCached_try_def getItem_def invoke_def)
qed

lemma dev_mock_production: "production E \<Longrightarrow> dev_mock E m = (Inr False, m)"
  by (simp add: dev_mock_def)

lemma check_session_timeout: "session_timeout E \<Longrightarrow> check_session E = Inr JNull"
  by (simp add: check_session_def Error_def)

lemma initializeAuth_session_timeout:
  assumes "production E" and "session_timeout E" and "mounted_after_session E"
  shows "fst (initializeAuth P E initial_auth m)
           = \<lparr>user = JNull, profile = JNull, organization = JNull, loading = False, error = JNull\<rparr>"
proof -
  obtain cached m1 where g: "getCached P (t_start E) ''userProfile'' m = (Inr cached, m1)"
    using getCached_returns by blast
  show ?thesis
    using assms
    by (simp add: initializeAuth_def initializeAuth_try_def g dev_mock_production
        check_session_timeout Let_def clear_identity_def initial_auth_def)
qed

lemma initializeAuth_profile_failure:
  assumes "production E" and "check_session E = Inr session"
      and "truthy (opt_prop session ''user'')"
      and "mounted_after_session E" and "mounted_after_profile E"
      and "first_profile E = Inl err"
      and "err_code err \<noteq> ''PGRST116''" and "\<not> includes_str (err_message err) ''No rows''"
      and "map_of (items m) (CACHE_PREFIX @ ''userProfile'') = None"
  shows "fst (initializeAuth P E initial_auth m)
           = \<lparr>user = opt_prop session ''user'', profile = JNull, organization = JNull,
              loading = False, error = JNull\<rparr>"
proof -
  obtain m1 where g1: "getCached P (t_start E) ''userProfile'' m = (Inr JNull, m1)"
    and i1: "items m1 = items m"
    using getCached_absent_keeps [OF assms(9)] by blast
  have a1: "map_of (items m1) (CACHE_PREFIX @ ''userProfile'') = None"
    using assms(9) i1 by simp
  obtain m2 where g2: "getCached P (t_cached E) ''userProfile'' m1 = (Inr JNull, m2)"
    and i2: "items m2 = items m1"
    using getCached_absent_keeps [OF a1] by blast
  have a2: "map_of (items m2) (CACHE_PREFIX @ ''userProfile'') = None"
    using a1 i2 by simp
  obtain m3 where g3: "getCached P (t_fallback E) ''userProfile'' m2 = (Inr JNull, m3)"
    using getCached_absent_keeps [OF a2] by blast
  have stage: "profile_stage P E (opt_prop session ''user'') initial_auth m1
                 = (Inr (), initial_auth\<lparr>user := opt_prop session ''user''\<rparr>, m3)"
    using assms(5-8)
    by (simp add: profile_stage_def load_profile_def recover_profile_def g2 g3)
  have run: "initializeAuth P E initial_auth m
               = (initial_auth\<lparr>user := opt_prop session ''user'', loading := False\<rparr>, m3)"
    using assms(1-4)
    by (simp add: initializeAuth_def initializeAuth_try_def g1 dev_mock_production stage Let_def)
  show ?thesis
    unfolding run by (simp add: initial_auth_def)
qed

text \<open>
  Claim C8. (as amended) When the bootstrap has set \<open>loading\<close> to false, either user, profile
  and organization are all \<open>null\<close>, or the user is populated and the profile is \<open>null\<close> or
  populated; the organization is the one of the profile, or \<open>null\<close>. An error message is
  retained exactly when an error reached the outer handler, and then all three are \<open>null\<close>.
  In a production build, a session check that times out ends with all three \<open>null\<close> and no
  error message; and when the session has a user, the component stays mounted, the first profile
  fetch fails with an error other than the no-rows error and no profile is stored in the cache,
  the bootstrap ends with that user, no profile, no organization and no error message.
\<close>

theorem initializeAuth_settled:
  assumes "initializeAuth P E initial_auth m = (a, m')" and "\<not> loading a"
  shows "(anonymous a \<or> truthy (user a) \<and> (profile a = JNull \<or> truthy (profile a)))
       \<and> organization a = or_null (opt_prop (profile a) ''organization'')
       \<and> (error a \<noteq> JNull \<longrightarrow> anonymous a)
       \<and> (error a \<noteq> JNull \<longleftrightarrow> isl (fst (initializeAuth_try P E initial_auth m)))
       \<and> (production E \<and> session_timeout E \<and> mounted_after_session E \<longrightarrow>
            anonymous a \<and> error a = JNull)
       \<and> (production E \<and> check_session E = Inr session \<and> truthy (opt_prop session ''user'')
            \<and> mounted_after_session E \<and> mounted_after_profile E
            \<and> first_profile E = Inl err
            \<and> err_code err \<noteq> ''PGRST116'' \<and> \<not> includes_str (err_message err) ''No rows''
            \<and> map_of (items m) (CACHE_PREFIX @ ''userProfile'') = None \<longrightarrow>
            user a = opt_prop session ''user'' \<and> profile a = JNull \<and> organization a = JNull
            \<and> error a = JNull)"
proof -
  have p0: "pending initial_auth"
    by (simp add: pending_def coherent_def anonymous_def initial_auth_def)
  obtain r a1 m1 where t: "initializeAuth_try P E initial_auth m = (r, a1, m1)"
    by (cases "initializeAuth_try P E initial_auth m")
  have inv: "pending a1 \<or> \<not> isl r \<and> coherent a1 \<and> error a1 = JNull"
    using initializeAuth_try_pending [OF p0, of P E m] t by simp
  have shape: "(anonymous a \<or> truthy (user a) \<and> (profile a = JNull \<or> truthy (profile a)))
       \<and> organization a = or_null (opt_prop (profile a) ''organization'')
       \<and> (error a \<noteq> JNull \<longrightarrow> anonymous a)
       \<and> (error a \<noteq> JNull \<longleftrightarrow> isl (fst (initializeAuth_try P E initial_auth m)))"
  proof (cases r)
    case (Inl e)
    then have "pending a1" using inv by simp
    then show ?thesis
      using assms t Inl
      by (auto simp: initializeAuth_def pending_def coherent_def anonymous_def clear_identity_def
            split: if_splits)
  next
    case (Inr u)
    have a: "a = a1" using assms(1) t Inr by (simp add: initializeAuth_def)
    have "coherent a1 \<and> error a1 = JNull"
      using inv Inr by (auto simp: pending_def)
    then show ?thesis
      using a t Inr by (simp add: coherent_def)
  qed
  have a: "a = fst (initializeAuth P E initial_auth m)"
    using assms(1) by simp
  have timeout: "production E \<and> session_timeout E \<and> mounted_after_session E \<longrightarrow>
            anonymous a \<and> error a = JNull"
    using initializeAuth_session_timeout [of E P m] a by (auto simp: anonymous_def)
  have failed_fetch: "production E \<and> check_session E = Inr session
            \<and> truthy (opt_prop session ''user'')
            \<and> mounted_after_session E \<and> mounted_after_profile E
            \<and> first_profile E = Inl err
            \<and> err_code err \<noteq> ''PGRST116'' \<and> \<not> includes_str (err_message err) ''No rows''
            \<and> map_of (items m) (CACHE_PREFIX @ ''userProfile'') = None \<longrightarrow>
            user a = opt_prop session ''user'' \<and> profile a = JNull \<and> organization a = JNull
            \<and> error a = JNull"
    using initializeAuth_profile_failure [of E session err m P] a by auto
  show ?thesis
    using shape timeout failed_fetch by blast
qed

theorem initializeAuth_settled_witness:
  "initializeAuth demo_platform offline_env initial_auth fresh_medium
     = (\<lparr>user = JNull, profile = JNull, organization = JNull, loading = False,
          error = JStr ''Failed to fetch''\<rparr>,
        fresh_medium\<lparr>calls := [GetItem ''app_cache_userProfile'']\<rparr>)
   \<and> isl (fst (initializeAuth_try demo_platform offline_env initial_auth fresh_medium))
   \<and> anonymous \<lparr>user = JNull, profile = JNull, organization = JNull, loading = False,
          error = JStr ''Failed to fetch''\<rparr>
   \<and> production timeout_env \<and> session_timeout timeout_env \<and> mounted_after_session timeout_env
   \<and> initializeAuth demo_platform timeout_env initial_auth fresh_medium
     = (\<lparr>user = JNull, profile = JNull, organization = JNull, loading = False, error = JNull\<rparr>,
        fresh_medium\<lparr>calls := [GetItem ''app_cache_userProfile'']\<rparr>)
   \<and> production slow_profile_env
   \<and> check_session slow_profile_env
       = Inr (JObj [(''user'', JObj [(''id'', JStr ''u1''), (''email'', JStr ''test@test.com'')])])
   \<and> mounted_after_session slow_profile_env \<and> mounted_after_profile slow_profile_env
   \<and> first_profile slow_profile_env = Inl (Error ''Profile fetch timeout'')
   \<and> err_code (Error ''Profile fetch timeout'') \<noteq> ''PGRST116''
   \<and> \<not> includes_str (err_message (Error ''Profile fetch timeout'')) ''No rows''
   \<and> map_of (items fresh_medium) (CACHE_PREFIX @ ''userProfile'') = None
   \<and> initializeAuth demo_platform slow_profile_env initial_auth fresh_medium
     = (\<lparr>user = JObj [(''id'', JStr ''u1''), (''email'', JStr ''test@test.com'')],
          profile = JNull, organization = JNull, loading = False, error = JNull\<rparr>,
        fresh_medium\<lparr>calls := [GetItem ''app_cache_userProfile'', GetItem ''app_cache_userProfile'',
                                  GetItem ''app_cache_userProfile'']\<rparr>)"
proof -
  have h1: "initializeAuth demo_platform offline_env initial_auth fresh_medium
     = (\<lparr>user = JNull, profile = JNull, organization = JNull, loading = False,
          error = JStr ''Failed to fetch''\<rparr>,
        fresh_medium\<lparr>calls := [GetItem ''app_cache_userProfile'']\<rparr>)"
    by (simp add: initializeAuth_def initializeAuth_try_def check_session_def
        getSessionWithRetry_def dev_mock_def offline_env_def slow_profile_env_def fresh_medium_def
        initial_auth_def Error_def clear_identity_def
        getCached_def getCached_try_def getItem_def invoke_def CACHE_PREFIX_def Let_def)
  have h2: "\<not> loading \<lparr>user = JNull, profile = JNull, organization = JNull, loading = False,
          error = JStr ''Failed to fetch''\<rparr>"
    by simp
  have t1: "initializeAuth demo_platform timeout_env initial_auth fresh_medium
     = (\<lparr>user = JNull, profile = JNull, organization = JNull, loading = False, error = JNull\<rparr>,
        fresh_medium\<lparr>calls := [GetItem ''app_cache_userProfile'']\<rparr>)"
    by (simp add: initializeAuth_def initializeAuth_try_def check_session_def
        getSessionWithRetry_def dev_mock_def timeout_env_def slow_profile_env_def fresh_medium_def
        initial_auth_def Error_def clear_identity_def
        getCached_def getCached_try_def getItem_def invoke_def CACHE_PREFIX_def Let_def)
  have t2: "\<not> loading \<lparr>user = JNull, profile = JNull, organization = JNull, loading = False,
          error = JNull\<rparr>"
    by simp
  have t3: "production timeout_env \<and> session_timeout timeout_env \<and> mounted_after_session timeout_env"
    by (simp add: timeout_env_def slow_profile_env_def)
  have s1: "initializeAuth demo_platform slow_profile_env initial_auth fresh_medium
     = (\<lparr>user = JObj [(''id'', JStr ''u1''), (''email'', JStr ''test@test.com'')],
          profile = JNull, organization = JNull, loading = False, error = JNull\<rparr>,
        fresh_medium\<lparr>calls := [GetItem ''app_cache_userProfile'', GetItem ''app_cache_userProfile'',
                                  GetItem ''app_cache_userProfile'']\<rparr>)"
    by (simp add: initializeAuth_def initializeAuth_try_def profile_stage_def load_profile_def
        recover_profile_def check_session_def getSessionWithRetry_def dev_mock_def
        slow_profile_env_def fresh_medium_def initial_auth_def Error_def startsWith_def
        getCached_def getCached_try_def getItem_def invoke_def CACHE_PREFIX_def Let_def field_def)
  have s2: "\<not> loading \<lparr>user = JObj [(''id'', JStr ''u1''), (''email'', JStr ''test@test.com'')],
          profile = JNull, organization = JNull, loading = False, error = JNull\<rparr>"
    by simp
  have s3: "production slow_profile_env
   \<and> check_session slow_profile_env
       = Inr (JObj [(''user'', JObj [(''id'', JStr ''u1''), (''email'', JStr ''test@test.com'')])])
   \<and> mounted_after_session slow_profile_env \<and> mounted_after_profile slow_profile_env
   \<and> first_profile slow_profile_env = Inl (Error ''Profile fetch timeout'')
   \<and> err_code (Error ''Profile fetch timeout'') \<noteq> ''PGRST116''
   \<and> \<not> includes_str (err_message (Error ''Profile fetch timeout'')) ''No rows''
   \<and> map_of (items fresh_medium) (CACHE_PREFIX @ ''userProfile'') = None"
    by (simp add: slow_profile_env_def check_session_def getSessionWithRetry_def Error_def
        startsWith_def fresh_medium_def)
  show ?thesis
    using h1 t1 t3 s1 s3
      initializeAuth_settled [OF h1 h2]
      initializeAuth_settled [OF t1 t2]
      initializeAuth_settled [OF s1 s2,
        of "JObj [(''user'', JObj [(''id'', JStr ''u1''), (''email'', JStr ''test@test.com'')])]"
           "Error ''Profile fetch timeout''"]
    by simp
qed

text \<open>
  The claim as it was stated fails. The session is found, the profile fetch loses its race
  against the timer, and no profile is cached: the bootstrap completes with the user set and
  no profile, which is neither of the two shapes, and the failure leaves no error message.
\<close>

theorem initializeAuth_counterexample:
  "fst (initializeAuth demo_platform slow_profile_env initial_auth fresh_medium)
     = \<lparr>user = JObj [(''id'', JStr ''u1''), (''email'', JStr ''test@test.com'')],
        profile = JNull, organization = JNull, loading = False, error = JNull\<rparr>
   \<and> \<not> anonymous (fst (initializeAuth demo_platform slow_profile_env initial_auth fresh_medium))
   \<and> \<not> truthy (profile (fst (initializeAuth demo_platform slow_profile_env initial_auth fresh_medium)))
   \<and> first_profile slow_profile_env = Inl (Error ''Profile fetch timeout'')"
proof -
  have run: "fst (initializeAuth demo_platform slow_profile_env initial_auth fresh_medium)
     = \<lparr>user = JObj [(''id'', JStr ''u1''), (''email'', JStr ''test@test.com'')],
        profile = JNull, organization = JNull, loading = False, error = JNull\<rparr>"
    by (simp add: initializeAuth_def initializeAuth_try_def profile_stage_def load_profile_def
        recover_profile_def check_session_def getSessionWithRetry_def dev_mock_def
        slow_profile_env_def fresh_medium_def initial_auth_def Error_def startsWith_def
        getCached_def getCached_try_def getItem_def invoke_def CACHE_PREFIX_def Let_def field_def)
  show ?thesis
    by (simp add: run anonymous_def) (simp add: slow_profile_env_def)
qed

end
